theory Spec2Isabelle
  imports Complex_Main "HOL-Library.Word" "HOL-Library.Log_Nat"
begin

section \<open>Python values, exceptions and effects\<close>

text \<open>
  The channel in \<^verbatim>\<open>nanobot/channels/voice_channel.py\<close> talks to three outside parties:
  the audio device (PyAudio), the speech provider (the \<^verbatim>\<open>AipSpeech\<close> client) and the
  message bus. Every call to one of them is an \<open>event\<close> of the trace a function returns,
  and what the call gives back (a value or a raised exception) is read from an
  environment record, so that each \<^verbatim>\<open>try\<close>/\<^verbatim>\<open>except\<close> of the source is a branch here.
\<close>

type_synonym byte = "8 word"

text \<open>
  A Python \<^verbatim>\<open>float\<close> is an IEEE double: \<open>Double m e\<close> is the finite double of value
  \<open>m * 2 ^ e\<close> (for a double, \<open>\<bar>m\<bar> < 2 ^ 53\<close> and \<open>- 1074 \<le> e\<close>), beside the two
  infinities and NaN. A number is a Python \<^verbatim>\<open>int\<close> or a \<^verbatim>\<open>float\<close>.
\<close>

datatype pyfloat = Double int int | PosInf | NegInf | NaN

datatype pynum = NInt int | NFloat pyfloat

text \<open>The Python values that cross the provider boundary (decoded JSON, bytes, text).\<close>

datatype pyval =
    PNone
  | PBool bool
  | PNum pynum
  | PStr string
  | PBytes "byte list"
  | PList "pyval list"
  | PDict "(string \<times> pyval) list"

text \<open>
  \<open>err\<close>: instances of \<^verbatim>\<open>Exception\<close>. \<open>IOError\<close> carries its \<^verbatim>\<open>args\<close> tuple.
  \<open>exn\<close> adds \<^verbatim>\<open>asyncio.CancelledError\<close>, which \<^verbatim>\<open>except Exception\<close> does not catch and
  which is delivered at \<^verbatim>\<open>await\<close> points only: synchronous calls raise \<open>err\<close>, awaits
  raise \<open>exn\<close>. The signals that end the interpreter (\<^verbatim>\<open>KeyboardInterrupt\<close>,
  \<^verbatim>\<open>SystemExit\<close>) are not part of the model.
\<close>

datatype err =
    IOError "pyval list"
  | TypeError
  | ValueError
  | IndexError
  | KeyError
  | AttributeError
  | OverflowError
  | OtherError string

datatype exn = CancelledError | Error err

type_synonym handle = nat

datatype level = Debug | Info | Warning | Error_level

datatype event =
    OpenInput
  | Read handle
  | StopStream handle
  | Close handle
  | Asr "byte list"
  | HandleMessage string string pyval
  | Sleep real
  | Synthesis pyval pyval int "(string \<times> pyval) list"
  | OpenOutput
  | Write handle pyval
  | CancelTask
  | Terminate
  | Log level string

subsection \<open>Python primitives used by the channel\<close>

text \<open>
  Comparing a float with an integer literal \<open>k\<close>, in integer arithmetic. Every comparison
  with NaN is false.
\<close>

fun float_lt :: "pyfloat \<Rightarrow> int \<Rightarrow> bool" where
  "float_lt (Double m e) k = (if 0 \<le> e then m * 2 ^ nat e < k else m < k * 2 ^ nat (- e))"
| "float_lt NegInf k = True"
| "float_lt _ k = False"

fun float_gt :: "pyfloat \<Rightarrow> int \<Rightarrow> bool" where
  "float_gt (Double m e) k = (if 0 \<le> e then k < m * 2 ^ nat e else k * 2 ^ nat (- e) < m)"
| "float_gt PosInf k = True"
| "float_gt _ k = False"

fun float_eq :: "pyfloat \<Rightarrow> int \<Rightarrow> bool" where
  "float_eq (Double m e) k = (if 0 \<le> e then m * 2 ^ nat e = k else m = k * 2 ^ nat (- e))"
| "float_eq _ k = False"

text \<open>\<^verbatim>\<open>bool(v)\<close>, as \<^verbatim>\<open>if v:\<close> evaluates it.\<close>

fun py_truthy :: "pyval \<Rightarrow> bool" where
  "py_truthy PNone = False"
| "py_truthy (PBool b) = b"
| "py_truthy (PNum (NInt n)) = (n \<noteq> 0)"
| "py_truthy (PNum (NFloat (Double m e))) = (m \<noteq> 0)"
| "py_truthy (PNum (NFloat f)) = True"
| "py_truthy (PStr s) = (s \<noteq> [])"
| "py_truthy (PBytes bs) = (bs \<noteq> [])"
| "py_truthy (PList xs) = (xs \<noteq> [])"
| "py_truthy (PDict kvs) = (kvs \<noteq> [])"

text \<open>\<^verbatim>\<open>v == k\<close> for an integer literal \<^verbatim>\<open>k\<close>.\<close>

fun py_eq_int :: "pyval \<Rightarrow> int \<Rightarrow> bool" where
  "py_eq_int (PBool b) k = ((if b then 1 else 0) = k)"
| "py_eq_int (PNum (NInt n)) k = (n = k)"
| "py_eq_int (PNum (NFloat f)) k = float_eq f k"
| "py_eq_int _ k = False"

text \<open>\<^verbatim>\<open>v.get(key)\<close>: only a dict has the method.\<close>

fun py_get :: "pyval \<Rightarrow> string \<Rightarrow> err + pyval" where
  "py_get (PDict kvs) key = Inr (case map_of kvs key of None \<Rightarrow> PNone | Some v \<Rightarrow> v)"
| "py_get _ key = Inl AttributeError"

text \<open>\<^verbatim>\<open>v[0]\<close>. The keys of a decoded JSON object are strings, so \<^verbatim>\<open>d[0]\<close> is a KeyError.\<close>

fun py_index0 :: "pyval \<Rightarrow> err + pyval" where
  "py_index0 (PList []) = Inl IndexError"
| "py_index0 (PList (x # xs)) = Inr x"
| "py_index0 (PStr []) = Inl IndexError"
| "py_index0 (PStr (c # cs)) = Inr (PStr [c])"
| "py_index0 (PBytes []) = Inl IndexError"
| "py_index0 (PBytes (b # bs)) = Inr (PNum (NInt (uint b)))"
| "py_index0 (PDict kvs) = Inl KeyError"
| "py_index0 _ = Inl TypeError"

text \<open>\<^verbatim>\<open>len(v)\<close>.\<close>

fun py_len :: "pyval \<Rightarrow> err + nat" where
  "py_len (PStr s) = Inr (length s)"
| "py_len (PBytes bs) = Inr (length bs)"
| "py_len (PList xs) = Inr (length xs)"
| "py_len (PDict kvs) = Inr (length kvs)"
| "py_len _ = Inl TypeError"

text \<open>\<^verbatim>\<open>max(data)\<close> on a bytes object: the largest byte as an int, ValueError when empty.\<close>

definition py_max_bytes :: "byte list \<Rightarrow> err + nat" where
  "py_max_bytes data = (if data = [] then Inl ValueError else Inr (Max (set (map unat data))))"

text \<open>
  \<^verbatim>\<open>min(k, v)\<close> and \<^verbatim>\<open>max(k, v)\<close> with an integer literal first: Python keeps the first
  argument unless the second is strictly smaller (larger).
\<close>

fun num_lt :: "pynum \<Rightarrow> int \<Rightarrow> bool" where
  "num_lt (NInt n) k = (n < k)"
| "num_lt (NFloat f) k = float_lt f k"

fun num_gt :: "pynum \<Rightarrow> int \<Rightarrow> bool" where
  "num_gt (NInt n) k = (n > k)"
| "num_gt (NFloat f) k = float_gt f k"

definition py_min :: "int \<Rightarrow> pynum \<Rightarrow> pynum" where
  "py_min k v = (if num_lt v k then v else NInt k)"

definition py_max :: "int \<Rightarrow> pynum \<Rightarrow> pynum" where
  "py_max k v = (if num_gt v k then v else NInt k)"

text \<open>
  The double nearest to \<open>n * 2 ^ e\<close>, as IEEE arithmetic rounds an exact result: a
  magnitude of more than 53 bits is cut to 53 bits, to nearest and to even on a tie, and a
  result of \<open>2 ^ 1024\<close> or more is an infinity.
\<close>

definition round_double :: "int \<Rightarrow> int \<Rightarrow> pyfloat" where
  "round_double n e =
     (let a = \<bar>n\<bar>;
          k = bitlen a - 53;
          q = (if k \<le> 0 then a
               else (let d = a div 2 ^ nat k; r = a mod 2 ^ nat k; half = 2 ^ nat (k - 1)
                     in if half < r \<or> (r = half \<and> odd d) then d + 1 else d));
          e' = (if k \<le> 0 then e else e + k)
      in if 1024 < bitlen q + e' then (if n < 0 then NegInf else PosInf)
         else Double (sgn n * q) e')"

text \<open>
  \<^verbatim>\<open>v * k\<close> for a small integer literal \<open>k\<close> (the source has \<^verbatim>\<open>* 5\<close>): an \<^verbatim>\<open>int\<close> product is
  exact, a \<^verbatim>\<open>float\<close> product is rounded to a double and may overflow to an infinity.
\<close>

fun float_mul :: "pyfloat \<Rightarrow> int \<Rightarrow> pyfloat" where
  "float_mul (Double m e) k = round_double (m * k) e"
| "float_mul f k = f"

fun num_mul :: "pynum \<Rightarrow> int \<Rightarrow> pynum" where
  "num_mul (NInt n) k = NInt (n * k)"
| "num_mul (NFloat f) k = NFloat (float_mul f k)"

text \<open>
  \<^verbatim>\<open>int(v)\<close>: truncates a finite float towards zero, raises OverflowError on an infinity
  and ValueError on NaN.
\<close>

fun py_int :: "pynum \<Rightarrow> err + int" where
  "py_int (NInt n) = Inr n"
| "py_int (NFloat (Double m e)) =
     Inr (if 0 \<le> e then m * 2 ^ nat e else sgn m * (\<bar>m\<bar> div 2 ^ nat (- e)))"
| "py_int (NFloat NaN) = Inl ValueError"
| "py_int (NFloat f) = Inl OverflowError"

section \<open>Recognition: \<^verbatim>\<open>recognize_speech\<close>\<close>

text \<open>
  The \<^verbatim>\<open>try\<close> block. \<open>Inl\<close> is a raised exception, \<open>Inr (Some v)\<close> is \<^verbatim>\<open>return v\<close> inside
  the block, \<open>Inr None\<close> is falling out of it. The argument \<open>asr\<close> is what
  \<^verbatim>\<open>self.client.asr(audio_data, 'pcm', 16000, {'dev_pid': 1537})\<close> does.
\<close>

definition recognize_try :: "(err + pyval) \<Rightarrow> byte list \<Rightarrow> event list \<times> (exn + pyval option)" where
  "recognize_try asr audio_data =
     (case asr of
        Inl e \<Rightarrow> ([Asr audio_data], Inl (Error e))
      | Inr result \<Rightarrow>
          (case py_get result ''err_no'' of
             Inl e \<Rightarrow> ([Asr audio_data], Inl (Error e))
           | Inr code \<Rightarrow>
               if py_eq_int code 0 then
                 (case py_get result ''result'' of
                    Inl e \<Rightarrow> ([Asr audio_data], Inl (Error e))
                  | Inr r \<Rightarrow>
                      (case py_index0 r of
                         Inl e \<Rightarrow> ([Asr audio_data], Inl (Error e))
                       | Inr first \<Rightarrow> ([Asr audio_data], Inr (Some first))))
               else
                 (case py_get result ''err_msg'' of
                    Inl e \<Rightarrow> ([Asr audio_data], Inl (Error e))
                  | Inr m \<Rightarrow> ([Asr audio_data, Log Error_level ''Baidu ASR error''], Inr None))))"

text \<open>\<^verbatim>\<open>except Exception\<close> logs and falls through to \<^verbatim>\<open>return None\<close>.\<close>

definition recognize_speech :: "(err + pyval) \<Rightarrow> byte list \<Rightarrow> event list \<times> (exn + pyval)" where
  "recognize_speech asr audio_data =
     (case recognize_try asr audio_data of
        (evs, Inr (Some v)) \<Rightarrow> (evs, Inr v)
      | (evs, Inr None) \<Rightarrow> (evs, Inr PNone)
      | (evs, Inl (Error e)) \<Rightarrow> (evs @ [Log Error_level ''Baidu ASR request failed''], Inr PNone)
      | (evs, Inl CancelledError) \<Rightarrow> (evs, Inl CancelledError))"

section \<open>Synthesis: \<^verbatim>\<open>synthesize_speech\<close>\<close>

text \<open>
  \<^verbatim>\<open>self.voice_config\<close>: each field may be absent (\<open>None\<close>), and \<^verbatim>\<open>getattr\<close> then gives the
  default. The configuration class is declared in \<^verbatim>\<open>nanobot.config\<close>; the fields that
  the code does arithmetic on are numbers, the other two are passed on as they are.
\<close>

record voice_config =
  vol :: "pynum option"
  tts_speed :: "pynum option"
  pit :: "pynum option"
  tts_voice_name :: "pyval option"
  language :: "pyval option"

definition getattr :: "'a option \<Rightarrow> 'a \<Rightarrow> 'a" where
  "getattr field fallback = (case field of None \<Rightarrow> fallback | Some v \<Rightarrow> v)"

text \<open>
  The dict \<^verbatim>\<open>params\<close>. Its entries are evaluated in order, and \<^verbatim>\<open>int(... * 5)\<close> of the
  second one can raise. The default speed is the double written \<^verbatim>\<open>0.8\<close>.
\<close>

definition tts_params :: "voice_config \<Rightarrow> err + (string \<times> pyval) list" where
  "tts_params cfg =
     (case py_int (num_mul (getattr (tts_speed cfg) (NFloat (Double 7205759403792794 (- 53)))) 5) of
        Inl e \<Rightarrow> Inl e
      | Inr n \<Rightarrow>
          Inr [(''vol'', PNum (py_max 0 (py_min 15 (getattr (vol cfg) (NInt 5))))),
               (''spd'', PNum (py_max 0 (py_min 9 (NInt n)))),
               (''pit'', PNum (py_max 0 (py_min 9 (getattr (pit cfg) (NInt 5))))),
               (''per'', getattr (tts_voice_name cfg) (PNum (NInt 4)))])"

definition tts_language :: "voice_config \<Rightarrow> pyval" where
  "tts_language cfg =
     (let language = getattr (language cfg) (PStr ''zh'')
      in if language \<notin> set [PStr ''zh'', PStr ''en''] then PStr ''zh'' else language)"

text \<open>
  The \<^verbatim>\<open>try\<close> block; \<open>synthesis\<close> is what \<^verbatim>\<open>self.client.synthesis(text, language, 1, params)\<close>
  does. When building \<^verbatim>\<open>params\<close> raises, the block is left before the call. The debug
  line of the error branch takes \<^verbatim>\<open>len(text)\<close>, which raises on a text without a length.
\<close>

definition synthesize_try ::
  "voice_config \<Rightarrow> pyval \<Rightarrow> (err + pyval) \<Rightarrow> event list \<times> (exn + pyval option)" where
  "synthesize_try cfg text synthesis =
     (case tts_params cfg of
        Inl e \<Rightarrow> ([], Inl (Error e))
      | Inr params \<Rightarrow>
          (let language = tts_language cfg;
               call = Synthesis text language 1 params
           in case synthesis of
                Inl e \<Rightarrow> ([call], Inl (Error e))
              | Inr result \<Rightarrow>
                  (case result of
                     PDict kvs \<Rightarrow>
                       (case py_len text of
                          Inl e \<Rightarrow> ([call, Log Error_level ''Baidu TTS error''], Inl (Error e))
                        | Inr n \<Rightarrow>
                            ([call, Log Error_level ''Baidu TTS error'', Log Debug ''TTS params''],
                             Inr None))
                   | _ \<Rightarrow> ([call], Inr (Some result)))))"

definition synthesize_speech ::
  "voice_config \<Rightarrow> pyval \<Rightarrow> (err + pyval) \<Rightarrow> event list \<times> (exn + pyval)" where
  "synthesize_speech cfg text synthesis =
     (case synthesize_try cfg text synthesis of
        (evs, Inr (Some v)) \<Rightarrow> (evs, Inr v)
      | (evs, Inr None) \<Rightarrow> (evs, Inr PNone)
      | (evs, Inl (Error e)) \<Rightarrow> (evs @ [Log Error_level ''Baidu TTS request failed''], Inr PNone)
      | (evs, Inl CancelledError) \<Rightarrow> (evs, Inl CancelledError))"

section \<open>Playback and \<^verbatim>\<open>send\<close>\<close>

text \<open>What the audio device and the provider do during one \<^verbatim>\<open>send\<close>.\<close>

record send_env =
  synthesis_res :: "err + pyval"
  out_open_res :: "err + handle"
  write_res :: "err + unit"
  out_stop_res :: "err + unit"
  out_close_res :: "err + unit"

text \<open>\<^verbatim>\<open>_play_audio\<close>: the first failing call leaves the \<^verbatim>\<open>try\<close> block; the handler logs.\<close>

definition play_try :: "send_env \<Rightarrow> pyval \<Rightarrow> event list \<times> (exn + unit)" where
  "play_try env audio_data =
     (case out_open_res env of
        Inl e \<Rightarrow> ([OpenOutput], Inl (Error e))
      | Inr stream \<Rightarrow>
          (case write_res env of
             Inl e \<Rightarrow> ([OpenOutput, Write stream audio_data], Inl (Error e))
           | Inr _ \<Rightarrow>
               (case out_stop_res env of
                  Inl e \<Rightarrow> ([OpenOutput, Write stream audio_data, StopStream stream], Inl (Error e))
                | Inr _ \<Rightarrow>
                    (case out_close_res env of
                       Inl e \<Rightarrow>
                         ([OpenOutput, Write stream audio_data, StopStream stream, Close stream],
                          Inl (Error e))
                     | Inr _ \<Rightarrow>
                         ([OpenOutput, Write stream audio_data, StopStream stream, Close stream],
                          Inr ())))))"

definition play_audio :: "send_env \<Rightarrow> pyval \<Rightarrow> event list \<times> (exn + unit)" where
  "play_audio env audio_data =
     (case play_try env audio_data of
        (evs, Inl (Error e)) \<Rightarrow> (evs @ [Log Error_level ''Failed to play audio''], Inr ())
      | (evs, r) \<Rightarrow> (evs, r))"

text \<open>
  The argument of \<^verbatim>\<open>send\<close>: a plain \<^verbatim>\<open>str\<close>, or any other object, given by its attributes
  and by what \<^verbatim>\<open>str(msg)\<close> returns. A \<^verbatim>\<open>str\<close> has no attribute \<^verbatim>\<open>content\<close>.
\<close>

datatype message = Text string | Object "(string \<times> pyval) list" string

fun hasattr :: "message \<Rightarrow> string \<Rightarrow> bool" where
  "hasattr (Text s) name = False"
| "hasattr (Object attrs shown) name = (map_of attrs name \<noteq> None)"

fun str_of :: "message \<Rightarrow> string" where
  "str_of (Text s) = s"
| "str_of (Object attrs shown) = shown"

fun content_of :: "message \<Rightarrow> pyval" where
  "content_of (Text s) = PNone"
| "content_of (Object attrs shown) = (case map_of attrs ''content'' of None \<Rightarrow> PNone | Some v \<Rightarrow> v)"

text \<open>\<^verbatim>\<open>msg.content if hasattr(msg, 'content') else str(msg)\<close>\<close>

definition message_text :: "message \<Rightarrow> pyval" where
  "message_text msg = (if hasattr msg ''content'' then content_of msg else PStr (str_of msg))"

definition send_try :: "voice_config \<Rightarrow> message \<Rightarrow> send_env \<Rightarrow> event list \<times> (exn + bool)" where
  "send_try cfg msg env =
     (let text = message_text msg
      in case synthesize_speech cfg text (synthesis_res env) of
           (evs, Inl x) \<Rightarrow> (evs, Inl x)
         | (evs, Inr audio_data) \<Rightarrow>
             if py_truthy audio_data then
               (case py_len audio_data of
                  Inl e \<Rightarrow> (evs, Inl (Error e))
                | Inr n \<Rightarrow>
                    (case play_audio env audio_data of
                       (evs', Inl x) \<Rightarrow> (evs @ [Log Info ''Generated speech audio''] @ evs', Inl x)
                     | (evs', Inr _) \<Rightarrow> (evs @ [Log Info ''Generated speech audio''] @ evs', Inr True)))
             else (evs @ [Log Error_level ''Failed to synthesize speech audio''], Inr False))"

definition send :: "voice_config \<Rightarrow> message \<Rightarrow> send_env \<Rightarrow> event list \<times> (exn + bool)" where
  "send cfg msg env =
     (case send_try cfg msg env of
        (evs, Inl (Error e)) \<Rightarrow> (evs @ [Log Error_level ''Failed to send voice message''], Inr False)
      | (evs, r) \<Rightarrow> (evs, r))"

section \<open>The listen loop: \<^verbatim>\<open>_listen_for_audio\<close>\<close>

text \<open>
  The fields of the channel object that the loop and \<^verbatim>\<open>stop\<close> read or write:
  \<^verbatim>\<open>self._running\<close>, \<^verbatim>\<open>self.stream\<close> (\<open>None\<close> until a capture stream has been opened)
  and whether \<^verbatim>\<open>self._recording_task\<close> is set.
\<close>

record channel =
  running :: bool
  stream :: "handle option"
  recording_task :: bool

definition rate :: nat where "rate = 16000"
definition chunk :: nat where "chunk = 1024"
definition record_seconds :: nat where "record_seconds = 3"

text \<open>\<^verbatim>\<open>int(self.rate / self.chunk * self.record_seconds)\<close>, the number of reads of one cycle.\<close>

definition n_reads :: nat where
  "n_reads = nat \<lfloor>real rate / real chunk * real record_seconds\<rfloor>"

text \<open>An \<^verbatim>\<open>await\<close> on a sleep either resumes or has the task's cancellation thrown into it.\<close>

datatype wake = Woke | Cancelled

text \<open>
  What the outside does during one cycle: \<^verbatim>\<open>self.p.open\<close>, the \<open>i\<close>-th \<^verbatim>\<open>stream.read\<close>,
  \<^verbatim>\<open>client.asr\<close>, \<^verbatim>\<open>await self._handle_message\<close>, the idle sleep, and in the handler
  \<^verbatim>\<open>stop_stream\<close>, \<^verbatim>\<open>close\<close> and the back-off sleep. \<^verbatim>\<open>_handle_message\<close> is inherited from
  \<^verbatim>\<open>BaseChannel\<close> (\<^verbatim>\<open>nanobot.channels.base\<close>): the call is the event \<open>HandleMessage\<close>, and
  whether it returns, raises or is cancelled is the parameter \<open>handle_res\<close>.
\<close>

record cycle_env =
  open_res :: "err + handle"
  read_res :: "nat \<Rightarrow> err + byte list"
  asr_res :: "err + pyval"
  handle_res :: "exn + unit"
  idle_wake :: wake
  stop_res :: "err + unit"
  close_res :: "err + unit"
  backoff_wake :: wake

text \<open>
  The \<^verbatim>\<open>for\<close> loop over the reads, with its inner \<^verbatim>\<open>try\<close>. A chunk is appended before
  \<^verbatim>\<open>max(data)\<close> is taken; \<^verbatim>\<open>e.args[0]\<close> raises IndexError on an IOError without arguments;
  any exception other than an IOError whose first argument equals -9981 leaves the loop.
\<close>

fun record_loop ::
  "handle \<Rightarrow> (nat \<Rightarrow> err + byte list) \<Rightarrow> nat list \<Rightarrow> byte list list \<Rightarrow> bool
     \<Rightarrow> event list \<times> (exn + byte list list \<times> bool)" where
  "record_loop s rd [] frames has_voice = ([], Inr (frames, has_voice))"
| "record_loop s rd (i # rest) frames has_voice =
     (case rd i of
        Inr data \<Rightarrow>
          (case py_max_bytes data of
             Inl e \<Rightarrow> ([Read s], Inl (Error e))
           | Inr audio_intensity \<Rightarrow>
               (case record_loop s rd rest (frames @ [data])
                       (if audio_intensity > 100 then True else has_voice) of
                  (evs, r) \<Rightarrow> (Read s # evs, r)))
      | Inl e \<Rightarrow>
          (case e of
             IOError args \<Rightarrow>
               (case args of
                  [] \<Rightarrow> ([Read s], Inl (Error IndexError))
                | a # _ \<Rightarrow>
                    if py_eq_int a (- 9981) then
                      (case record_loop s rd rest frames has_voice of
                         (evs, r) \<Rightarrow>
                           (Read s # Log Warning ''Audio input overflow, skipping frame'' # evs, r))
                    else ([Read s], Inl (Error e)))
           | _ \<Rightarrow> ([Read s], Inl (Error e))))"

text \<open>The end of the \<^verbatim>\<open>try\<close> block: \<^verbatim>\<open>await asyncio.sleep(0.5)\<close>.\<close>

definition idle :: "cycle_env \<Rightarrow> event list \<Rightarrow> event list \<times> (exn + unit)" where
  "idle env evs =
     (case idle_wake env of
        Woke \<Rightarrow> (evs @ [Sleep 0.5], Inr ())
      | Cancelled \<Rightarrow> (evs @ [Sleep 0.5], Inl CancelledError))"

text \<open>The \<^verbatim>\<open>try\<close> block of one cycle, after \<^verbatim>\<open>self.stream\<close> has been assigned.\<close>

definition cycle_body :: "handle \<Rightarrow> cycle_env \<Rightarrow> event list \<times> (exn + unit)" where
  "cycle_body s env =
     (case record_loop s (read_res env) [0..<n_reads] [] False of
        (evs, Inl x) \<Rightarrow> (Log Debug ''Listening for audio input...'' # evs, Inl x)
      | (evs, Inr (frames, has_voice)) \<Rightarrow>
          if has_voice then
            (let audio_data = concat frames
             in case recognize_speech (asr_res env) audio_data of
                  (evs', Inl x) \<Rightarrow>
                    (Log Debug ''Listening for audio input...'' # evs
                       @ Log Info ''Recorded audio'' # evs', Inl x)
                | (evs', Inr text) \<Rightarrow>
                    if py_truthy text then
                      (case handle_res env of
                         Inl x \<Rightarrow>
                           (Log Debug ''Listening for audio input...'' # evs
                              @ Log Info ''Recorded audio'' # evs'
                              @ [Log Info ''Recognized speech'',
                                 HandleMessage ''voice_user'' ''voice_chat'' text], Inl x)
                       | Inr _ \<Rightarrow>
                           idle env
                             (Log Debug ''Listening for audio input...'' # evs
                                @ Log Info ''Recorded audio'' # evs'
                                @ [Log Info ''Recognized speech'',
                                   HandleMessage ''voice_user'' ''voice_chat'' text]))
                    else
                      idle env
                        (Log Debug ''Listening for audio input...'' # evs
                           @ Log Info ''Recorded audio'' # evs'
                           @ [Log Warning ''No speech recognized'']))
          else
            idle env
              (Log Debug ''Listening for audio input...'' # evs
                 @ [Log Debug ''No voice detected, skipping'']))"

definition cycle_try :: "channel \<Rightarrow> cycle_env \<Rightarrow> event list \<times> (exn + unit) \<times> channel" where
  "cycle_try st env =
     (case open_res env of
        Inl e \<Rightarrow> ([OpenInput], Inl (Error e), st)
      | Inr s \<Rightarrow>
          (case cycle_body s env of
             (evs, r) \<Rightarrow> (OpenInput # evs, r, st\<lparr>stream := Some s\<rparr>)))"

text \<open>
  \<^verbatim>\<open>except Exception\<close>: log; then, only when \<^verbatim>\<open>self.stream\<close> is not \<open>None\<close>, stop and close
  it (the bare \<^verbatim>\<open>except: pass\<close> swallows what either raises, and a failing \<^verbatim>\<open>stop_stream\<close>
  skips \<^verbatim>\<open>close\<close>) and \<^verbatim>\<open>await asyncio.sleep(1)\<close>. The sleep is outside the \<^verbatim>\<open>try\<close>,
  so a cancellation delivered there leaves the coroutine.
\<close>

datatype outcome = Continue | Break | Raise exn

definition on_exception :: "channel \<Rightarrow> cycle_env \<Rightarrow> event list \<times> outcome" where
  "on_exception st env =
     (case stream st of
        None \<Rightarrow> ([Log Error_level ''Audio listening error''], Continue)
      | Some s \<Rightarrow>
          (let closing = (case stop_res env of
                            Inl _ \<Rightarrow> [StopStream s]
                          | Inr _ \<Rightarrow> [StopStream s, Close s])
           in case backoff_wake env of
                Woke \<Rightarrow>
                  (Log Error_level ''Audio listening error'' # closing @ [Sleep 1], Continue)
              | Cancelled \<Rightarrow>
                  (Log Error_level ''Audio listening error'' # closing @ [Sleep 1],
                   Raise CancelledError)))"

text \<open>One pass through the body of the \<^verbatim>\<open>while\<close> loop.\<close>

definition listen_cycle :: "channel \<Rightarrow> cycle_env \<Rightarrow> event list \<times> outcome \<times> channel" where
  "listen_cycle st env =
     (case cycle_try st env of
        (evs, Inr _, st') \<Rightarrow> (evs, Continue, st')
      | (evs, Inl CancelledError, st') \<Rightarrow> (evs, Break, st')
      | (evs, Inl (Error e), st') \<Rightarrow>
          (case on_exception st' env of (evs', out) \<Rightarrow> (evs @ evs', out, st')))"

text \<open>
  The \<^verbatim>\<open>while self._running\<close> loop, run against the environments of its successive
  cycles. \<open>Pending\<close>: the loop is still running when the given environments are used up.
\<close>

datatype status = Pending | Returned | Raised exn

fun listen_for_audio :: "channel \<Rightarrow> cycle_env list \<Rightarrow> event list \<times> status \<times> channel" where
  "listen_for_audio st [] = ([], if running st then Pending else Returned, st)"
| "listen_for_audio st (env # rest) =
     (if \<not> running st then ([], Returned, st)
      else
        (case listen_cycle st env of
           (evs, Continue, st') \<Rightarrow>
             (case listen_for_audio st' rest of (evs', r) \<Rightarrow> (evs @ evs', r))
         | (evs, Break, st') \<Rightarrow> (evs, Returned, st')
         | (evs, Raise x, st') \<Rightarrow> (evs, Raised x, st')))"

text \<open>
  \<^verbatim>\<open>stop\<close>: clears the flag, cancels the task, stops and closes the stored stream (logging
  a warning when either call raises) and terminates PyAudio.
\<close>

definition stop :: "channel \<Rightarrow> (err + unit) \<Rightarrow> (err + unit) \<Rightarrow> event list \<times> channel" where
  "stop st stop_stream_res close_stream_res =
     ((if recording_task st then [CancelTask] else [])
        @ (case stream st of
             None \<Rightarrow> []
           | Some s \<Rightarrow>
               (case stop_stream_res of
                  Inl e \<Rightarrow> [StopStream s, Log Warning ''Error closing audio stream'']
                | Inr _ \<Rightarrow>
                    (case close_stream_res of
                       Inl e \<Rightarrow> [StopStream s, Close s, Log Warning ''Error closing audio stream'']
                     | Inr _ \<Rightarrow> [StopStream s, Close s])))
        @ [Terminate, Log Info ''Voice channel stopped''],
      st\<lparr>running := False\<rparr>)"

section \<open>Observations on traces and the vocabulary of the specification\<close>

fun is_asr :: "event \<Rightarrow> bool" where
  "is_asr (Asr audio) = True"
| "is_asr _ = False"

fun is_publish :: "event \<Rightarrow> bool" where
  "is_publish (HandleMessage sender chat content) = True"
| "is_publish _ = False"

fun is_sleep :: "event \<Rightarrow> bool" where
  "is_sleep (Sleep d) = True"
| "is_sleep _ = False"

fun is_synthesis :: "event \<Rightarrow> bool" where
  "is_synthesis (Synthesis text lang ctp params) = True"
| "is_synthesis _ = False"

fun is_write :: "event \<Rightarrow> bool" where
  "is_write (Write s d) = True"
| "is_write _ = False"

fun is_playback :: "event \<Rightarrow> bool" where
  "is_playback OpenOutput = True"
| "is_playback (Write s d) = True"
| "is_playback _ = False"

text \<open>A number lies in the closed range \<open>[lo, hi]\<close>.\<close>

fun in_range :: "int \<Rightarrow> int \<Rightarrow> pynum \<Rightarrow> bool" where
  "in_range lo hi (NInt n) = (lo \<le> n \<and> n \<le> hi)"
| "in_range lo hi (NFloat (Double m e)) =
     (\<not> float_lt (Double m e) lo \<and> \<not> float_gt (Double m e) hi)"
| "in_range lo hi (NFloat f) = False"

text \<open>
  A read that reports the transient input overflow: an IOError whose first argument
  equals -9981.
\<close>

definition is_overflow :: "err + byte list \<Rightarrow> bool" where
  "is_overflow r =
     (case r of
        Inl (IOError (a # rest)) \<Rightarrow> py_eq_int a (- 9981)
      | _ \<Rightarrow> False)"

text \<open>The chunks that the reads \<open>ks\<close> deliver, in order, leaving out every failed read.\<close>

definition delivered :: "(nat \<Rightarrow> err + byte list) \<Rightarrow> nat list \<Rightarrow> byte list list" where
  "delivered rd ks = concat (map (\<lambda>i. case rd i of Inr d \<Rightarrow> [d] | Inl e \<Rightarrow> []) ks)"

text \<open>What the source tests before it calls the recognizer: some byte of some chunk is above 100.\<close>

definition byte_above_threshold :: "byte list list \<Rightarrow> bool" where
  "byte_above_threshold frames = list_ex (\<lambda>d. list_ex (\<lambda>b. 100 < unat b) d) frames"

text \<open>
  What the specification speaks of: the samples of a window. The capture stream is
  opened with \<^verbatim>\<open>format=paInt16\<close> and one channel, so a sample is two bytes, a signed
  16-bit integer (low byte first, as on the usual hosts), and its magnitude is its
  absolute value. \<open>spec_peak\<close> is the largest magnitude of a window (0 for a window
  without samples). The windows evaluated below repeat one byte, so the byte order
  plays no part in them.
\<close>

definition pcm16 :: "byte \<Rightarrow> byte \<Rightarrow> int" where
  "pcm16 lo hi =
     (let u = uint lo + 256 * uint hi in if u < 32768 then u else u - 65536)"

fun pcm16_samples :: "byte list \<Rightarrow> int list" where
  "pcm16_samples (lo # hi # rest) = pcm16 lo hi # pcm16_samples rest"
| "pcm16_samples _ = []"

definition spec_peak :: "byte list list \<Rightarrow> int" where
  "spec_peak window = Max (insert 0 (set (map abs (concat (map pcm16_samples window)))))"

text \<open>An event that is neither a recognition call, nor a publication, nor a sleep.\<close>

definition quiet_event :: "event \<Rightarrow> bool" where
  "quiet_event ev = (\<not> is_asr ev \<and> \<not> is_publish ev \<and> \<not> is_sleep ev)"

text \<open>A cycle's environment delivers a cancellation at one of its \<^verbatim>\<open>await\<close> points.\<close>

definition cancels :: "cycle_env \<Rightarrow> bool" where
  "cancels env \<longleftrightarrow>
     handle_res env = Inl CancelledError \<or> idle_wake env = Cancelled \<or> backoff_wake env = Cancelled"

section \<open>Recognition results\<close>

lemma recognize_try_not_cancelled: "snd (recognize_try asr audio) \<noteq> Inl CancelledError"
  by (simp add: recognize_try_def split: sum.splits)

lemma recognize_try_events:
  "\<exists>logs. fst (recognize_try asr audio) = Asr audio # logs \<and> list_all quiet_event logs"
  by (simp add: recognize_try_def quiet_event_def split: sum.splits)

lemma recognize_speech_shape:
  "\<exists>logs v. recognize_speech asr audio = (Asr audio # logs, Inr v) \<and> list_all quiet_event logs"
  using recognize_try_not_cancelled [of asr audio] recognize_try_events [of asr audio]
  by (cases "recognize_try asr audio")
     (auto simp: recognize_speech_def quiet_event_def split: sum.splits option.splits exn.splits)

text \<open>
  Claim C6. Whatever the provider call does, \<^verbatim>\<open>recognize_speech\<close> returns a value and
  raises nothing. It returns the first element of the result list when the error code
  is 0 and the list is not empty; it returns \<^verbatim>\<open>None\<close> when the error code is another
  number, when the result list is empty or missing, and when the provider call raises.
\<close>

theorem recognize_speech_result:
  "(asr = Inr (PDict kvs) \<and> map_of kvs ''err_no'' = Some (PNum (NInt 0))
      \<and> map_of kvs ''result'' = Some (PList (x # xs))
     \<longrightarrow> snd (recognize_speech asr audio) = Inr x)
   \<and> (asr = Inr (PDict kvs) \<and> map_of kvs ''err_no'' = Some (PNum (NInt n)) \<and> n \<noteq> 0
     \<longrightarrow> snd (recognize_speech asr audio) = Inr PNone)
   \<and> (asr = Inr (PDict kvs) \<and> map_of kvs ''err_no'' = Some (PNum (NInt 0))
      \<and> (map_of kvs ''result'' = Some (PList []) \<or> map_of kvs ''result'' = None)
     \<longrightarrow> snd (recognize_speech asr audio) = Inr PNone)
   \<and> (asr = Inl e \<longrightarrow> snd (recognize_speech asr audio) = Inr PNone)
   \<and> (\<exists>v. snd (recognize_speech asr audio) = Inr v)"
proof -
  have never_raises: "\<exists>v. snd (recognize_speech asr audio) = Inr v"
    using recognize_speech_shape [of asr audio] by auto
  show ?thesis
    using never_raises
    by (auto simp: recognize_speech_def recognize_try_def)
qed

theorem recognize_speech_result_witness:
  "snd (recognize_speech
          (Inr (PDict [(''err_no'', PNum (NInt 0)),
                       (''result'', PList [PStr ''hello'', PStr ''hullo''])])) [1, 2])
     = Inr (PStr ''hello'')
   \<and> snd (recognize_speech
          (Inr (PDict [(''err_no'', PNum (NInt 3301)),
                       (''err_msg'', PStr ''speech quality error'')])) [1, 2])
     = Inr PNone
   \<and> snd (recognize_speech
          (Inr (PDict [(''err_no'', PNum (NInt 0)), (''result'', PList [])])) [1, 2])
     = Inr PNone
   \<and> snd (recognize_speech (Inl (OtherError ''ConnectionError'')) [1, 2]) = Inr PNone"
  using recognize_speech_result
          [where asr = "Inr (PDict [(''err_no'', PNum (NInt 0)),
                                    (''result'', PList [PStr ''hello'', PStr ''hullo''])])"
             and kvs = "[(''err_no'', PNum (NInt 0)),
                         (''result'', PList [PStr ''hello'', PStr ''hullo''])]"
             and x = "PStr ''hello''" and xs = "[PStr ''hullo'']" and audio = "[1, 2]"]
        recognize_speech_result
          [where asr = "Inr (PDict [(''err_no'', PNum (NInt 3301)),
                                    (''err_msg'', PStr ''speech quality error'')])"
             and kvs = "[(''err_no'', PNum (NInt 3301)),
                         (''err_msg'', PStr ''speech quality error'')]"
             and n = 3301 and audio = "[1, 2]"]
        recognize_speech_result
          [where asr = "Inr (PDict [(''err_no'', PNum (NInt 0)), (''result'', PList [])])"
             and kvs = "[(''err_no'', PNum (NInt 0)), (''result'', PList [])]"
             and audio = "[1, 2]"]
        recognize_speech_result
          [where asr = "Inl (OtherError ''ConnectionError'')"
             and e = "OtherError ''ConnectionError''" and audio = "[1, 2]"]
  by simp

section \<open>Synthesis parameters\<close>

text \<open>Evaluating the bit length of a literal.\<close>

lemma bitlen_numeral: "bitlen (numeral n) = bitlen (numeral n div 2) + 1"
  by (subst compute_bitlen) simp

lemma bitlen_one: "bitlen 1 = 1"
  by (subst compute_bitlen) simp

text \<open>
  The speed entry at some everyday speeds, as Python computes it: \<^verbatim>\<open>int(0.8 * 5)\<close> is 4,
  \<^verbatim>\<open>int(0.6 * 5)\<close> is 3 (the product rounds up to 3.0), \<^verbatim>\<open>int(1.4 * 5)\<close> is 7 (a tie, rounded
  to even), and the product of the double \<open>2 ^ 1023\<close> overflows, so that \<^verbatim>\<open>int\<close> raises.
\<close>

lemma speed_default: "py_int (num_mul (NFloat (Double 7205759403792794 (- 53))) 5) = Inr 4"
  by (simp add: round_double_def Let_def bitlen_numeral bitlen_one)

lemma speed_0_6: "py_int (num_mul (NFloat (Double 5404319552844595 (- 53))) 5) = Inr 3"
  by (simp add: round_double_def Let_def bitlen_numeral bitlen_one)

lemma speed_1_4: "py_int (num_mul (NFloat (Double 6305039478318694 (- 52))) 5) = Inr 7"
  by (simp add: round_double_def Let_def bitlen_numeral bitlen_one)

lemma speed_overflow: "py_int (num_mul (NFloat (Double 1 1023)) 5) = Inl OverflowError"
  by (simp add: round_double_def Let_def bitlen_numeral bitlen_one)

lemma clamp_in_range:
  assumes "lo \<le> hi"
  shows "in_range lo hi (py_max lo (py_min hi v))"
proof (cases v)
  case (NInt n)
  with assms show ?thesis by (auto simp: py_max_def py_min_def)
next
  case (NFloat f)
  with assms show ?thesis
    by (cases f) (auto simp: py_max_def py_min_def)
qed

text \<open>
  Whenever the dict is built, volume, speed and pitch are inside their ranges, and the
  voice identity is the configured value itself.
\<close>

lemma tts_params_clamped:
  "tts_params cfg = Inr ps \<Longrightarrow>
   \<exists>v s p. map_of ps ''vol'' = Some (PNum v) \<and> in_range 0 15 v
     \<and> map_of ps ''spd'' = Some (PNum s) \<and> in_range 0 9 s
     \<and> map_of ps ''pit'' = Some (PNum p) \<and> in_range 0 9 p"
  by (auto simp: tts_params_def clamp_in_range split: sum.splits)

lemma tts_params_per:
  "tts_params cfg = Inr ps \<Longrightarrow>
   map_of ps ''per'' = Some (getattr (tts_voice_name cfg) (PNum (NInt 4)))"
  by (auto simp: tts_params_def split: sum.splits)

lemma tts_params_default:
  "tts_params \<lparr>vol = None, tts_speed = None, pit = None, tts_voice_name = None, language = None\<rparr>
     = Inr [(''vol'', PNum (NInt 5)), (''spd'', PNum (NInt 4)),
            (''pit'', PNum (NInt 5)), (''per'', PNum (NInt 4))]"
  by (simp add: tts_params_def getattr_def speed_default py_max_def py_min_def
        del: num_mul.simps)

lemma tts_language_default:
  "tts_language \<lparr>vol = None, tts_speed = None, pit = None, tts_voice_name = None, language = None\<rparr>
     = PStr ''zh''"
  by (simp add: tts_language_def getattr_def)

lemma synthesize_speech_no_params:
  "tts_params cfg = Inl e \<Longrightarrow>
   synthesize_speech cfg text r = ([Log Error_level ''Baidu TTS request failed''], Inr PNone)"
  by (simp add: synthesize_speech_def synthesize_try_def)

lemma synthesize_speech_cases:
  "tts_params cfg = Inr ps \<Longrightarrow>
   synthesize_speech cfg text r =
     (case r of
        Inl e \<Rightarrow>
          ([Synthesis text (tts_language cfg) 1 ps,
            Log Error_level ''Baidu TTS request failed''], Inr PNone)
      | Inr (PDict kvs) \<Rightarrow>
          (case py_len text of
             Inl e \<Rightarrow>
               ([Synthesis text (tts_language cfg) 1 ps,
                 Log Error_level ''Baidu TTS error'',
                 Log Error_level ''Baidu TTS request failed''], Inr PNone)
           | Inr n \<Rightarrow>
               ([Synthesis text (tts_language cfg) 1 ps,
                 Log Error_level ''Baidu TTS error'', Log Debug ''TTS params''], Inr PNone))
      | Inr v \<Rightarrow> ([Synthesis text (tts_language cfg) 1 ps], Inr v))"
  by (simp add: synthesize_speech_def synthesize_try_def Let_def split: sum.splits pyval.splits)

text \<open>
  Claim C3, evaluated. With volume 99, speed 7.0, pitch -3 and voice identity 99
  configured, the provider call receives volume 15, speed 9 and pitch 0, and the voice
  identity 99 as it is: the comment \<^verbatim>\<open># 1-11\<close> on that entry states a range that no code
  enforces.
\<close>

theorem voice_identity_reaches_provider_unclamped:
  "fst (synthesize_speech
          \<lparr>vol = Some (NInt 99), tts_speed = Some (NFloat (Double 7 0)), pit = Some (NInt (- 3)),
           tts_voice_name = Some (PNum (NInt 99)), language = None\<rparr>
          (PStr ''hello'') (Inr (PBytes [1, 2])))
     = [Synthesis (PStr ''hello'') (PStr ''zh'') 1
          [(''vol'', PNum (NInt 15)), (''spd'', PNum (NInt 9)),
           (''pit'', PNum (NInt 0)), (''per'', PNum (NInt 99))]]"
proof -
  have "tts_params
          \<lparr>vol = Some (NInt 99), tts_speed = Some (NFloat (Double 7 0)), pit = Some (NInt (- 3)),
           tts_voice_name = Some (PNum (NInt 99)), language = None\<rparr>
        = Inr [(''vol'', PNum (NInt 15)), (''spd'', PNum (NInt 9)),
               (''pit'', PNum (NInt 0)), (''per'', PNum (NInt 99))]"
    by (simp add: tts_params_def getattr_def round_double_def Let_def bitlen_numeral bitlen_one
          py_max_def py_min_def)
  then show ?thesis
    by (simp add: synthesize_speech_cases tts_language_def getattr_def)
qed

section \<open>Sending: synthesis, then playback\<close>

lemma play_audio_returns: "\<exists>evs. play_audio env a = (evs, Inr ())"
  by (simp add: play_audio_def play_try_def split: sum.splits)

lemma play_audio_never_raises: "play_audio env a = (evs, Inl x) \<Longrightarrow> False"
  using play_audio_returns [of env a] by auto

lemma play_audio_writes:
  "out_open_res env = Inr s \<Longrightarrow> filter is_write (fst (play_audio env a)) = [Write s a]"
  by (simp add: play_audio_def play_try_def split: sum.splits)

lemma play_audio_no_synthesis: "filter is_synthesis (fst (play_audio env a)) = []"
  by (simp add: play_audio_def play_try_def split: sum.splits)

text \<open>\<^verbatim>\<open>send\<close> with its two handlers resolved.\<close>

lemma send_unfold:
  "send cfg msg env =
     (case synthesize_speech cfg (message_text msg) (synthesis_res env) of
        (evs, Inl CancelledError) \<Rightarrow> (evs, Inl CancelledError)
      | (evs, Inl (Error e)) \<Rightarrow> (evs @ [Log Error_level ''Failed to send voice message''], Inr False)
      | (evs, Inr audio_data) \<Rightarrow>
          if py_truthy audio_data then
            (case py_len audio_data of
               Inl e \<Rightarrow> (evs @ [Log Error_level ''Failed to send voice message''], Inr False)
             | Inr n \<Rightarrow>
                 (evs @ [Log Info ''Generated speech audio''] @ fst (play_audio env audio_data),
                  Inr True))
          else (evs @ [Log Error_level ''Failed to synthesize speech audio''], Inr False))"
  by (auto simp: send_def send_try_def Let_def split: sum.splits prod.splits exn.splits
        dest: play_audio_never_raises)

text \<open>When the parameters cannot be built, no provider call is made and \<^verbatim>\<open>send\<close> is false.\<close>

lemma send_no_params:
  "tts_params cfg = Inl e \<Longrightarrow>
   send cfg msg env =
     ([Log Error_level ''Baidu TTS request failed'',
       Log Error_level ''Failed to synthesize speech audio''], Inr False)"
  by (simp add: send_unfold synthesize_speech_no_params)

text \<open>
  The value of \<^verbatim>\<open>send\<close> when the provider is called: true exactly when the provider
  returned something that is not a dict, is truthy and has a length. Nothing of the
  playback enters it.
\<close>

lemma send_value:
  assumes "tts_params cfg = Inr ps"
  shows "snd (send cfg msg env) =
     Inr (case synthesis_res env of
            Inl e \<Rightarrow> False
          | Inr v \<Rightarrow>
              (case v of
                 PDict kvs \<Rightarrow> False
               | _ \<Rightarrow> py_truthy v \<and> (\<exists>n. py_len v = Inr n)))"
proof (cases "synthesis_res env")
  case (Inl e)
  then show ?thesis by (simp add: send_unfold synthesize_speech_cases [OF assms])
next
  case (Inr v)
  show ?thesis
  proof (cases v)
    case (PNum x)
    show ?thesis
    proof (cases x)
      case (NInt n)
      with Inr PNum show ?thesis by (simp add: send_unfold synthesize_speech_cases [OF assms])
    next
      case (NFloat f)
      with Inr PNum show ?thesis
        by (cases f) (simp_all add: send_unfold synthesize_speech_cases [OF assms])
    qed
  qed (use Inr in \<open>simp_all add: send_unfold synthesize_speech_cases [OF assms] split: sum.splits\<close>)
qed

lemma send_false:
  "synthesis_res env = Inl e \<or> synthesis_res env = Inr (PDict kvs)
     \<or> synthesis_res env = Inr (PBytes []) \<Longrightarrow>
   snd (send cfg msg env) = Inr False"
proof (cases "tts_params cfg")
  case (Inl x)
  then show ?thesis by (simp add: send_no_params)
next
  case (Inr qs)
  assume "synthesis_res env = Inl e \<or> synthesis_res env = Inr (PDict kvs)
     \<or> synthesis_res env = Inr (PBytes [])"
  with Inr show ?thesis by (auto simp: send_value)
qed

lemma send_events_bytes:
  "tts_params cfg = Inr ps \<Longrightarrow> synthesis_res env = Inr (PBytes (b # bs)) \<Longrightarrow>
   fst (send cfg msg env) =
     Synthesis (message_text msg) (tts_language cfg) 1 ps
       # Log Info ''Generated speech audio'' # fst (play_audio env (PBytes (b # bs)))"
  by (simp add: send_unfold synthesize_speech_cases)

lemma send_events_dict:
  assumes "synthesis_res env = Inr (PDict kvs)"
  shows "filter is_playback (fst (send cfg msg env)) = []"
proof (cases "tts_params cfg")
  case (Inl e)
  then show ?thesis by (simp add: send_no_params)
next
  case (Inr ps)
  with assms show ?thesis
    by (simp add: send_unfold synthesize_speech_cases split: sum.splits)
qed

lemma send_synthesis_events:
  assumes "tts_params cfg = Inr ps"
  shows "filter is_synthesis (fst (send cfg msg env))
           = [Synthesis (message_text msg) (tts_language cfg) 1 ps]"
proof (cases "synthesis_res env")
  case (Inl e)
  then show ?thesis by (simp add: send_unfold synthesize_speech_cases [OF assms])
next
  case (Inr v)
  then show ?thesis
    by (cases v)
       (simp_all add: send_unfold synthesize_speech_cases [OF assms] play_audio_no_synthesis
          split: sum.splits)
qed

text \<open>
  Claim C4 as stated fails: with two bytes of audio synthesized and a playback device
  that cannot be opened, \<^verbatim>\<open>_play_audio\<close> logs the failure and \<^verbatim>\<open>send\<close> returns true.
\<close>

theorem send_true_after_playback_failure:
  "snd (play_try
          \<lparr>synthesis_res = Inr (PBytes [1, 2]),
           out_open_res = Inl (IOError [PNum (NInt (- 9996)), PStr ''Invalid output device'']),
           write_res = Inr (), out_stop_res = Inr (), out_close_res = Inr ()\<rparr>
          (PBytes [1, 2]))
     = Inl (Error (IOError [PNum (NInt (- 9996)), PStr ''Invalid output device'']))
   \<and> send \<lparr>vol = None, tts_speed = None, pit = None, tts_voice_name = None, language = None\<rparr>
        (Text ''hello'')
        \<lparr>synthesis_res = Inr (PBytes [1, 2]),
         out_open_res = Inl (IOError [PNum (NInt (- 9996)), PStr ''Invalid output device'']),
         write_res = Inr (), out_stop_res = Inr (), out_close_res = Inr ()\<rparr>
     = ([Synthesis (PStr ''hello'') (PStr ''zh'') 1
           [(''vol'', PNum (NInt 5)), (''spd'', PNum (NInt 4)),
            (''pit'', PNum (NInt 5)), (''per'', PNum (NInt 4))],
         Log Info ''Generated speech audio'',
         OpenOutput,
         Log Error_level ''Failed to play audio''],
        Inr True)"
  by (simp add: send_unfold synthesize_speech_cases [OF tts_params_default] tts_language_default
        play_audio_def play_try_def message_text_def)

text \<open>
  Claim C4, amended. For every message, configuration and outcome of the provider and of
  the audio device, \<^verbatim>\<open>send\<close> returns a boolean and raises nothing. It returns false when
  the synthesis fails (building the voice parameters raises, the provider call raises, or
  the provider returns an error dict) and when the provider returns empty audio; it
  returns true when the provider is called and returns non-empty audio, whatever the
  playback then does; and it returns true only if the provider was called and returned a
  truthy value that is not a dict.
\<close>

theorem send_result:
  "(\<exists>b. snd (send cfg msg env) = Inr b)
   \<and> (tts_params cfg = Inl e' \<longrightarrow> snd (send cfg msg env) = Inr False)
   \<and> (synthesis_res env = Inl e \<longrightarrow> snd (send cfg msg env) = Inr False)
   \<and> (synthesis_res env = Inr (PDict kvs) \<longrightarrow> snd (send cfg msg env) = Inr False)
   \<and> (synthesis_res env = Inr (PBytes []) \<longrightarrow> snd (send cfg msg env) = Inr False)
   \<and> (tts_params cfg = Inr ps \<and> synthesis_res env = Inr (PBytes (b # bs)) \<longrightarrow>
        snd (send cfg msg env) = Inr True)
   \<and> (snd (send cfg msg env) = Inr True \<longrightarrow>
        (\<exists>ps v. tts_params cfg = Inr ps \<and> synthesis_res env = Inr v \<and> py_truthy v
           \<and> (\<forall>kvs. v \<noteq> PDict kvs)))"
proof -
  have boolean: "\<exists>b. snd (send cfg msg env) = Inr b"
  proof (cases "tts_params cfg")
    case (Inl x)
    then have "snd (send cfg msg env) = Inr False" by (simp add: send_no_params)
    then show ?thesis by blast
  next
    case (Inr qs)
    then show ?thesis by (simp add: send_value)
  qed
  have only_if: "snd (send cfg msg env) = Inr True \<longrightarrow>
        (\<exists>ps v. tts_params cfg = Inr ps \<and> synthesis_res env = Inr v \<and> py_truthy v
           \<and> (\<forall>kvs. v \<noteq> PDict kvs))"
  proof (cases "tts_params cfg")
    case (Inl x)
    then show ?thesis by (simp add: send_no_params)
  next
    case built: (Inr qs)
    show ?thesis
    proof (cases "synthesis_res env")
      case (Inl x)
      with built show ?thesis by (simp add: send_value)
    next
      case (Inr v)
      with built show ?thesis by (cases v) (simp_all add: send_value)
    qed
  qed
  show ?thesis
    using boolean only_if send_false [of env e kvs cfg msg]
    by (simp add: send_no_params send_value)
qed

theorem send_result_witness:
  "snd (send \<lparr>vol = None, tts_speed = Some (NFloat (Double 1 1023)), pit = None,
              tts_voice_name = None, language = None\<rparr>
          (Text ''hello'')
          \<lparr>synthesis_res = Inr (PBytes [1, 2]), out_open_res = Inr 3,
           write_res = Inr (), out_stop_res = Inr (), out_close_res = Inr ()\<rparr>) = Inr False
   \<and> snd (send \<lparr>vol = None, tts_speed = None, pit = None, tts_voice_name = None, language = None\<rparr>
          (Text ''hello'')
          \<lparr>synthesis_res = Inl (OtherError ''ConnectionError''), out_open_res = Inr 3,
           write_res = Inr (), out_stop_res = Inr (), out_close_res = Inr ()\<rparr>) = Inr False
   \<and> snd (send \<lparr>vol = None, tts_speed = None, pit = None, tts_voice_name = None, language = None\<rparr>
          (Text ''hello'')
          \<lparr>synthesis_res = Inr (PDict [(''err_no'', PNum (NInt 502))]), out_open_res = Inr 3,
           write_res = Inr (), out_stop_res = Inr (), out_close_res = Inr ()\<rparr>) = Inr False
   \<and> snd (send \<lparr>vol = None, tts_speed = None, pit = None, tts_voice_name = None, language = None\<rparr>
          (Text ''hello'')
          \<lparr>synthesis_res = Inr (PBytes []), out_open_res = Inr 3,
           write_res = Inr (), out_stop_res = Inr (), out_close_res = Inr ()\<rparr>) = Inr False
   \<and> snd (send \<lparr>vol = None, tts_speed = None, pit = None, tts_voice_name = None, language = None\<rparr>
          (Text ''hello'')
          \<lparr>synthesis_res = Inr (PBytes [1, 2]), out_open_res = Inr 3,
           write_res = Inl (OtherError ''write failed''), out_stop_res = Inr (),
           out_close_res = Inr ()\<rparr>) = Inr True"
proof -
  have overflow: "tts_params \<lparr>vol = None, tts_speed = Some (NFloat (Double 1 1023)), pit = None,
                     tts_voice_name = None, language = None\<rparr> = Inl OverflowError"
    by (simp add: tts_params_def getattr_def speed_overflow del: num_mul.simps)
  show ?thesis
    using send_result
            [where cfg = "\<lparr>vol = None, tts_speed = Some (NFloat (Double 1 1023)), pit = None,
                            tts_voice_name = None, language = None\<rparr>"
               and e' = OverflowError and msg = "Text ''hello''"
               and env = "\<lparr>synthesis_res = Inr (PBytes [1, 2]), out_open_res = Inr 3,
                            write_res = Inr (), out_stop_res = Inr (), out_close_res = Inr ()\<rparr>"]
          send_result
            [where env = "\<lparr>synthesis_res = Inl (OtherError ''ConnectionError''), out_open_res = Inr 3,
                            write_res = Inr (), out_stop_res = Inr (), out_close_res = Inr ()\<rparr>"
               and e = "OtherError ''ConnectionError''"
               and cfg = "\<lparr>vol = None, tts_speed = None, pit = None, tts_voice_name = None,
                            language = None\<rparr>"
               and msg = "Text ''hello''"]
          send_result
            [where env = "\<lparr>synthesis_res = Inr (PDict [(''err_no'', PNum (NInt 502))]),
                            out_open_res = Inr 3, write_res = Inr (), out_stop_res = Inr (),
                            out_close_res = Inr ()\<rparr>"
               and kvs = "[(''err_no'', PNum (NInt 502))]"
               and cfg = "\<lparr>vol = None, tts_speed = None, pit = None, tts_voice_name = None,
                            language = None\<rparr>"
               and msg = "Text ''hello''"]
          send_result
            [where env = "\<lparr>synthesis_res = Inr (PBytes []), out_open_res = Inr 3,
                            write_res = Inr (), out_stop_res = Inr (), out_close_res = Inr ()\<rparr>"
               and cfg = "\<lparr>vol = None, tts_speed = None, pit = None, tts_voice_name = None,
                            language = None\<rparr>"
               and msg = "Text ''hello''"]
          send_result
            [where env = "\<lparr>synthesis_res = Inr (PBytes [1, 2]), out_open_res = Inr 3,
                            write_res = Inl (OtherError ''write failed''), out_stop_res = Inr (),
                            out_close_res = Inr ()\<rparr>"
               and b = 1 and bs = "[2]"
               and ps = "[(''vol'', PNum (NInt 5)), (''spd'', PNum (NInt 4)),
                          (''pit'', PNum (NInt 5)), (''per'', PNum (NInt 4))]"
               and cfg = "\<lparr>vol = None, tts_speed = None, pit = None, tts_voice_name = None,
                            language = None\<rparr>"
               and msg = "Text ''hello''"]
    by (simp add: overflow tts_params_default)
qed

text \<open>
  Claim C5 as stated fails at N = 0: when the provider returns zero bytes of audio (not
  an error dict), \<^verbatim>\<open>if audio_data:\<close> is false, \<^verbatim>\<open>send\<close> returns false and writes nothing.
\<close>

theorem send_empty_audio_not_played:
  "send \<lparr>vol = None, tts_speed = None, pit = None, tts_voice_name = None, language = None\<rparr>
     (Text ''hello'')
     \<lparr>synthesis_res = Inr (PBytes []), out_open_res = Inr 3,
      write_res = Inr (), out_stop_res = Inr (), out_close_res = Inr ()\<rparr>
   = ([Synthesis (PStr ''hello'') (PStr ''zh'') 1
         [(''vol'', PNum (NInt 5)), (''spd'', PNum (NInt 4)),
          (''pit'', PNum (NInt 5)), (''per'', PNum (NInt 4))],
       Log Error_level ''Failed to synthesize speech audio''],
      Inr False)"
  by (simp add: send_unfold synthesize_speech_cases [OF tts_params_default] tts_language_default
        message_text_def)

text \<open>
  Claim C5, amended. If the provider call is made (building the voice parameters did not
  raise) and returns N raw audio bytes with N at least 1, and the playback stream opens,
  \<^verbatim>\<open>send\<close> makes exactly one playback write, of exactly those bytes, and returns true. If
  the provider returns an error dict, \<^verbatim>\<open>send\<close> returns false and neither opens a playback
  stream nor writes to one.
\<close>

theorem send_playback:
  "(tts_params cfg = Inr ps \<and> synthesis_res env = Inr (PBytes (b # bs))
      \<and> out_open_res env = Inr s \<longrightarrow>
      filter is_write (fst (send cfg msg env)) = [Write s (PBytes (b # bs))]
      \<and> snd (send cfg msg env) = Inr True)
   \<and> (synthesis_res env = Inr (PDict kvs) \<longrightarrow>
      filter is_playback (fst (send cfg msg env)) = [] \<and> snd (send cfg msg env) = Inr False)"
  using send_false [of env undefined kvs cfg msg]
  by (simp add: send_events_bytes send_events_dict play_audio_writes send_value)

theorem send_playback_witness:
  "filter is_write
     (fst (send \<lparr>vol = None, tts_speed = None, pit = None, tts_voice_name = None, language = None\<rparr>
             (Text ''hello'')
             \<lparr>synthesis_res = Inr (PBytes [1, 2, 3]), out_open_res = Inr 3,
              write_res = Inr (), out_stop_res = Inr (), out_close_res = Inr ()\<rparr>))
     = [Write 3 (PBytes [1, 2, 3])]
   \<and> snd (send \<lparr>vol = None, tts_speed = None, pit = None, tts_voice_name = None, language = None\<rparr>
             (Text ''hello'')
             \<lparr>synthesis_res = Inr (PBytes [1, 2, 3]), out_open_res = Inr 3,
              write_res = Inr (), out_stop_res = Inr (), out_close_res = Inr ()\<rparr>)
     = Inr True
   \<and> filter is_playback
     (fst (send \<lparr>vol = None, tts_speed = None, pit = None, tts_voice_name = None, language = None\<rparr>
             (Text ''hello'')
             \<lparr>synthesis_res = Inr (PDict [(''err_no'', PNum (NInt 502))]), out_open_res = Inr 3,
              write_res = Inr (), out_stop_res = Inr (), out_close_res = Inr ()\<rparr>))
     = []
   \<and> snd (send \<lparr>vol = None, tts_speed = None, pit = None, tts_voice_name = None, language = None\<rparr>
             (Text ''hello'')
             \<lparr>synthesis_res = Inr (PDict [(''err_no'', PNum (NInt 502))]), out_open_res = Inr 3,
              write_res = Inr (), out_stop_res = Inr (), out_close_res = Inr ()\<rparr>)
     = Inr False"
  using send_playback
          [where env = "\<lparr>synthesis_res = Inr (PBytes [1, 2, 3]), out_open_res = Inr 3,
                          write_res = Inr (), out_stop_res = Inr (), out_close_res = Inr ()\<rparr>"
             and b = 1 and bs = "[2, 3]" and s = 3
             and ps = "[(''vol'', PNum (NInt 5)), (''spd'', PNum (NInt 4)),
                        (''pit'', PNum (NInt 5)), (''per'', PNum (NInt 4))]"
             and cfg = "\<lparr>vol = None, tts_speed = None, pit = None, tts_voice_name = None,
                          language = None\<rparr>"
             and msg = "Text ''hello''"]
        send_playback
          [where env = "\<lparr>synthesis_res = Inr (PDict [(''err_no'', PNum (NInt 502))]),
                          out_open_res = Inr 3, write_res = Inr (), out_stop_res = Inr (),
                          out_close_res = Inr ()\<rparr>"
             and kvs = "[(''err_no'', PNum (NInt 502))]"
             and cfg = "\<lparr>vol = None, tts_speed = None, pit = None, tts_voice_name = None,
                          language = None\<rparr>"
             and msg = "Text ''hello''"]
  by (simp add: tts_params_default)

text \<open>
  Claim C10. The text that \<^verbatim>\<open>send\<close> hands to the synthesis is the attribute \<^verbatim>\<open>content\<close> of
  the message when the message has one, and \<^verbatim>\<open>str(msg)\<close> otherwise; for a plain string it
  is the string itself. It is seen at the provider: whenever the voice parameters can be
  built, \<^verbatim>\<open>send\<close> makes exactly one synthesis call, with that text; when building them
  raises, it makes none.
\<close>

theorem send_text:
  "(map_of attrs ''content'' = Some v \<and> tts_params cfg = Inr ps \<longrightarrow>
      filter is_synthesis (fst (send cfg (Object attrs shown) env))
        = [Synthesis v (tts_language cfg) 1 ps])
   \<and> (map_of attrs ''content'' = None \<and> tts_params cfg = Inr ps \<longrightarrow>
      filter is_synthesis (fst (send cfg (Object attrs shown) env))
        = [Synthesis (PStr shown) (tts_language cfg) 1 ps])
   \<and> (tts_params cfg = Inr ps \<longrightarrow>
      filter is_synthesis (fst (send cfg (Text s) env))
        = [Synthesis (PStr s) (tts_language cfg) 1 ps])
   \<and> (tts_params cfg = Inl e \<longrightarrow> filter is_synthesis (fst (send cfg msg env)) = [])"
  by (simp add: send_synthesis_events send_no_params message_text_def)

theorem send_text_witness:
  "filter is_synthesis
     (fst (send \<lparr>vol = None, tts_speed = None, pit = None, tts_voice_name = None, language = None\<rparr>
             (Object [(''channel'', PStr ''voice''), (''content'', PStr ''good morning'')]
                ''OutboundMessage(...)'')
             \<lparr>synthesis_res = Inr (PBytes [1, 2, 3]), out_open_res = Inr 3,
              write_res = Inr (), out_stop_res = Inr (), out_close_res = Inr ()\<rparr>))
     = [Synthesis (PStr ''good morning'') (PStr ''zh'') 1
          [(''vol'', PNum (NInt 5)), (''spd'', PNum (NInt 4)),
           (''pit'', PNum (NInt 5)), (''per'', PNum (NInt 4))]]
   \<and> filter is_synthesis
     (fst (send \<lparr>vol = None, tts_speed = None, pit = None, tts_voice_name = None, language = None\<rparr>
             (Object [(''channel'', PStr ''voice'')] ''<object>'')
             \<lparr>synthesis_res = Inr (PBytes [1, 2, 3]), out_open_res = Inr 3,
              write_res = Inr (), out_stop_res = Inr (), out_close_res = Inr ()\<rparr>))
     = [Synthesis (PStr ''<object>'') (PStr ''zh'') 1
          [(''vol'', PNum (NInt 5)), (''spd'', PNum (NInt 4)),
           (''pit'', PNum (NInt 5)), (''per'', PNum (NInt 4))]]
   \<and> filter is_synthesis
     (fst (send \<lparr>vol = None, tts_speed = None, pit = None, tts_voice_name = None, language = None\<rparr>
             (Text ''hello'')
             \<lparr>synthesis_res = Inr (PBytes [1, 2, 3]), out_open_res = Inr 3,
              write_res = Inr (), out_stop_res = Inr (), out_close_res = Inr ()\<rparr>))
     = [Synthesis (PStr ''hello'') (PStr ''zh'') 1
          [(''vol'', PNum (NInt 5)), (''spd'', PNum (NInt 4)),
           (''pit'', PNum (NInt 5)), (''per'', PNum (NInt 4))]]
   \<and> filter is_synthesis
     (fst (send \<lparr>vol = None, tts_speed = Some (NFloat (Double 1 1023)), pit = None,
                 tts_voice_name = None, language = None\<rparr>
             (Text ''hello'')
             \<lparr>synthesis_res = Inr (PBytes [1, 2, 3]), out_open_res = Inr 3,
              write_res = Inr (), out_stop_res = Inr (), out_close_res = Inr ()\<rparr>))
     = []"
proof -
  have overflow: "tts_params \<lparr>vol = None, tts_speed = Some (NFloat (Double 1 1023)), pit = None,
                     tts_voice_name = None, language = None\<rparr> = Inl OverflowError"
    by (simp add: tts_params_def getattr_def speed_overflow del: num_mul.simps)
  show ?thesis
    using send_text
            [where attrs = "[(''channel'', PStr ''voice''), (''content'', PStr ''good morning'')]"
               and v = "PStr ''good morning''" and shown = "''OutboundMessage(...)''"
               and s = "''hello''"
               and ps = "[(''vol'', PNum (NInt 5)), (''spd'', PNum (NInt 4)),
                          (''pit'', PNum (NInt 5)), (''per'', PNum (NInt 4))]"
               and cfg = "\<lparr>vol = None, tts_speed = None, pit = None, tts_voice_name = None,
                            language = None\<rparr>"
               and env = "\<lparr>synthesis_res = Inr (PBytes [1, 2, 3]), out_open_res = Inr 3,
                            write_res = Inr (), out_stop_res = Inr (), out_close_res = Inr ()\<rparr>"]
          send_text
            [where attrs = "[(''channel'', PStr ''voice'')]" and shown = "''<object>''"
               and ps = "[(''vol'', PNum (NInt 5)), (''spd'', PNum (NInt 4)),
                          (''pit'', PNum (NInt 5)), (''per'', PNum (NInt 4))]"
               and cfg = "\<lparr>vol = None, tts_speed = None, pit = None, tts_voice_name = None,
                            language = None\<rparr>"
               and env = "\<lparr>synthesis_res = Inr (PBytes [1, 2, 3]), out_open_res = Inr 3,
                            write_res = Inr (), out_stop_res = Inr (), out_close_res = Inr ()\<rparr>"]
          send_text
            [where cfg = "\<lparr>vol = None, tts_speed = Some (NFloat (Double 1 1023)), pit = None,
                            tts_voice_name = None, language = None\<rparr>"
               and e = OverflowError and msg = "Text ''hello''"
               and env = "\<lparr>synthesis_res = Inr (PBytes [1, 2, 3]), out_open_res = Inr 3,
                            write_res = Inr (), out_stop_res = Inr (), out_close_res = Inr ()\<rparr>"]
    by (simp add: overflow tts_params_default tts_language_default)
qed

section \<open>The listen loop, cycle by cycle\<close>

lemma n_reads_46: "n_reads = 46"
  by (simp add: n_reads_def rate_def chunk_def record_seconds_def)

lemma py_max_bytes_nonempty:
  "d \<noteq> [] \<Longrightarrow> py_max_bytes d = Inr (Max (set (map unat d)))"
  by (simp add: py_max_bytes_def)

lemma max_byte_above:
  "d \<noteq> [] \<Longrightarrow> (100 < Max (unat ` set d)) = list_ex (\<lambda>b. 100 < unat b) d"
  by (auto simp: list_ex_iff Max_gr_iff)

lemma record_loop_overflow:
  "is_overflow (rd i) \<Longrightarrow>
   record_loop s rd (i # rest) frames has_voice =
     (case record_loop s rd rest frames has_voice of
        (evs, r) \<Rightarrow> (Read s # Log Warning ''Audio input overflow, skipping frame'' # evs, r))"
  by (auto simp: is_overflow_def split: sum.splits err.splits list.splits)

lemma record_loop_chunk:
  "rd i = Inr d \<Longrightarrow> d \<noteq> [] \<Longrightarrow>
   record_loop s rd (i # rest) frames has_voice =
     (case record_loop s rd rest (frames @ [d]) (list_ex (\<lambda>b. 100 < unat b) d \<or> has_voice) of
        (evs, r) \<Rightarrow> (Read s # evs, r))"
  by (cases "list_ex (\<lambda>b. 100 < unat b) d") (simp_all add: py_max_bytes_nonempty max_byte_above)

lemma record_loop_completes:
  "\<forall>i \<in> set ks. is_overflow (rd i) \<or> (\<exists>d. rd i = Inr d \<and> d \<noteq> []) \<Longrightarrow>
   snd (record_loop s rd ks frames has_voice)
     = Inr (frames @ delivered rd ks, has_voice \<or> byte_above_threshold (delivered rd ks))"
proof (induction ks arbitrary: frames has_voice)
  case Nil
  then show ?case by (simp add: delivered_def byte_above_threshold_def)
next
  case (Cons i ks)
  from Cons.prems have rest: "\<forall>i \<in> set ks. is_overflow (rd i) \<or> (\<exists>d. rd i = Inr d \<and> d \<noteq> [])"
    by simp
  from Cons.prems consider (ov) "is_overflow (rd i)" | (ok) d where "rd i = Inr d" "d \<noteq> []"
    by auto
  then show ?case
  proof cases
    case ov
    then have "delivered rd (i # ks) = delivered rd ks"
      by (auto simp: delivered_def is_overflow_def split: sum.splits)
    with ov Cons.IH [OF rest, of frames has_voice] show ?thesis
      by (simp add: record_loop_overflow case_prod_beta del: record_loop.simps)
  next
    case ok
    then have "delivered rd (i # ks) = d # delivered rd ks"
      by (simp add: delivered_def)
    with ok Cons.IH [OF rest, of "frames @ [d]" "list_ex (\<lambda>b. 100 < unat b) d \<or> has_voice"]
    show ?thesis
      by (auto simp: record_loop_chunk byte_above_threshold_def case_prod_beta
            simp del: record_loop.simps)
  qed
qed

lemma record_loop_events:
  "record_loop s rd ks frames has_voice = (evs, r) \<Longrightarrow> list_all quiet_event evs"
proof (induction ks arbitrary: frames has_voice evs r)
  case Nil
  then show ?case by simp
next
  case (Cons i ks)
  show ?case
    using Cons.prems
    by (auto simp: quiet_event_def split: sum.splits err.splits list.splits prod.splits if_splits
          dest: Cons.IH)
qed


lemma quiet_filter:
  "list_all quiet_event evs \<Longrightarrow>
   filter is_asr evs = [] \<and> filter is_publish evs = [] \<and> filter is_sleep evs = []"
  by (induction evs) (auto simp: quiet_event_def)

lemma record_loop_not_cancelled:
  "record_loop s rd ks frames has_voice = (evs, Inl CancelledError) \<Longrightarrow> False"
proof (induction ks arbitrary: frames has_voice evs)
  case Nil
  then show ?case by simp
next
  case (Cons i ks)
  show ?case
    using Cons.prems
    by (auto split: sum.splits err.splits list.splits prod.splits if_splits dest: Cons.IH)
qed

lemma cycle_body_no_voice:
  assumes "record_loop s (read_res env) [0..<n_reads] [] False = (evs, Inr (frames, False))"
  shows "cycle_body s env =
           idle env (Log Debug ''Listening for audio input...'' # evs
                       @ [Log Debug ''No voice detected, skipping''])"
  using assms by (simp add: cycle_body_def)

lemma idle_events: "fst (idle env evs) = evs @ [Sleep 0.5]"
  by (simp add: idle_def split: wake.splits)

lemma cycle_body_has_voice:
  assumes "record_loop s (read_res env) [0..<n_reads] [] False = (evs, Inr (frames, True))"
  shows "filter is_asr (fst (cycle_body s env)) = [Asr (concat frames)]"
proof -
  from assms have q: "filter is_asr evs = []"
    using record_loop_events quiet_filter by blast
  obtain logs v where r: "recognize_speech (asr_res env) (concat frames) = (Asr (concat frames) # logs, Inr v)"
    and l: "list_all quiet_event logs"
    using recognize_speech_shape by blast
  from l have "filter is_asr logs = []" by (simp add: quiet_filter)
  with assms q r show ?thesis
    by (simp add: cycle_body_def idle_events split: sum.splits)
qed

lemma on_exception_silent:
  "filter is_asr (fst (on_exception st env)) = [] \<and> filter is_publish (fst (on_exception st env)) = []"
  by (simp add: on_exception_def Let_def split: option.splits sum.splits wake.splits)

lemma listen_cycle_events:
  assumes "open_res env = Inr s"
  shows "filter is_asr (fst (listen_cycle st env)) = filter is_asr (fst (cycle_body s env))
       \<and> filter is_publish (fst (listen_cycle st env)) = filter is_publish (fst (cycle_body s env))"
proof (cases "cycle_body s env")
  case (Pair evs r)
  show ?thesis
  proof (cases r)
    case (Inr u)
    with Pair assms show ?thesis by (simp add: listen_cycle_def cycle_try_def)
  next
    case (Inl x)
    with Pair assms show ?thesis
      by (cases x)
         (simp_all add: listen_cycle_def cycle_try_def on_exception_silent case_prod_beta)
  qed
qed

text \<open>
  What the test \<^verbatim>\<open>max(data) > 100\<close> decides, byte by byte. When every read of a cycle
  delivers a non-empty chunk and no byte of the window is above 100, the cycle makes no
  recognition call and publishes nothing; when some byte is above 100, it makes exactly
  one recognition call, on the concatenation of the chunks.
\<close>

lemma quiet_bytes_no_recognition:
  assumes "open_res env = Inr s"
    and "\<forall>i < n_reads. \<exists>d. read_res env i = Inr d \<and> d \<noteq> []"
    and "\<not> byte_above_threshold (delivered (read_res env) [0..<n_reads])"
  shows "filter is_asr (fst (listen_cycle st env)) = []
       \<and> filter is_publish (fst (listen_cycle st env)) = []"
proof -
  obtain evs r where rl: "record_loop s (read_res env) [0..<n_reads] [] False = (evs, r)"
    by (cases "record_loop s (read_res env) [0..<n_reads] [] False")
  from assms(2) have "\<forall>i \<in> set [0..<n_reads]. is_overflow (read_res env i) \<or> (\<exists>d. read_res env i = Inr d \<and> d \<noteq> [])"
    by simp
  from record_loop_completes [OF this, of s "[]" False] rl assms(3)
  have r: "r = Inr (delivered (read_res env) [0..<n_reads], False)" by simp
  from rl have "list_all quiet_event evs" by (rule record_loop_events)
  then have "filter is_asr evs = []" "filter is_publish evs = []"
    by (simp_all add: quiet_filter)
  with rl r show ?thesis
    by (simp add: listen_cycle_events [OF assms(1)] cycle_body_no_voice idle_events)
qed

lemma loud_byte_one_recognition:
  assumes "open_res env = Inr s"
    and "\<forall>i < n_reads. \<exists>d. read_res env i = Inr d \<and> d \<noteq> []"
    and "byte_above_threshold (delivered (read_res env) [0..<n_reads])"
  shows "filter is_asr (fst (listen_cycle st env))
           = [Asr (concat (delivered (read_res env) [0..<n_reads]))]"
proof -
  obtain evs r where rl: "record_loop s (read_res env) [0..<n_reads] [] False = (evs, r)"
    by (cases "record_loop s (read_res env) [0..<n_reads] [] False")
  from assms(2) have "\<forall>i \<in> set [0..<n_reads]. is_overflow (read_res env i) \<or> (\<exists>d. read_res env i = Inr d \<and> d \<noteq> [])"
    by simp
  from record_loop_completes [OF this, of s "[]" False] rl assms(3)
  have r: "r = Inr (delivered (read_res env) [0..<n_reads], True)" by simp
  with rl show ?thesis
    by (simp add: listen_cycle_events [OF assms(1)] cycle_body_has_voice)
qed


lemma cycle_body_publishes:
  assumes "record_loop s (read_res env) [0..<n_reads] [] False = (evs, Inr (frames, True))"
    and "snd (recognize_speech (asr_res env) (concat frames)) = Inr text"
    and "py_truthy text"
  shows "filter is_publish (fst (cycle_body s env))
           = [HandleMessage ''voice_user'' ''voice_chat'' text]"
proof -
  from assms(1) have q: "filter is_publish evs = []"
    using record_loop_events quiet_filter by blast
  obtain logs v where r: "recognize_speech (asr_res env) (concat frames) = (Asr (concat frames) # logs, Inr v)"
    and l: "list_all quiet_event logs"
    using recognize_speech_shape by blast
  from l have "filter is_publish logs = []" by (simp add: quiet_filter)
  with assms q r show ?thesis
    by (simp add: cycle_body_def idle_events split: sum.splits)
qed

lemma cycle_body_cancelled:
  assumes "snd (cycle_body s env) = Inl CancelledError"
  shows "handle_res env = Inl CancelledError \<or> idle_wake env = Cancelled"
proof -
  obtain evs r where rl: "record_loop s (read_res env) [0..<n_reads] [] False = (evs, r)"
    by (cases "record_loop s (read_res env) [0..<n_reads] [] False")
  show ?thesis
  proof (cases r)
    case (Inl x)
    with rl have "x \<noteq> CancelledError" using record_loop_not_cancelled by blast
    with rl Inl assms show ?thesis by (simp add: cycle_body_def)
  next
    case (Inr fh)
    obtain frames hv where fh: "fh = (frames, hv)" by (cases fh)
    obtain logs v where r: "recognize_speech (asr_res env) (concat frames) = (Asr (concat frames) # logs, Inr v)"
      using recognize_speech_shape by blast
    from rl Inr fh r assms show ?thesis
      by (auto simp: cycle_body_def idle_def split: if_splits sum.splits wake.splits)
  qed
qed

lemma cycle_try_cancelled:
  "fst (snd (cycle_try st env)) = Inl CancelledError \<Longrightarrow>
   handle_res env = Inl CancelledError \<or> idle_wake env = Cancelled"
  using cycle_body_cancelled
  by (auto simp: cycle_try_def case_prod_beta split: sum.splits)

lemma on_exception_outcome:
  "snd (on_exception st env) =
     (if stream st \<noteq> None \<and> backoff_wake env = Cancelled then Raise CancelledError else Continue)"
  by (simp add: on_exception_def Let_def split: option.splits wake.splits)

lemma listen_cycle_outcome:
  "fst (snd (listen_cycle st env)) =
     (case fst (snd (cycle_try st env)) of
        Inr u \<Rightarrow> Continue
      | Inl CancelledError \<Rightarrow> Break
      | Inl (Error e) \<Rightarrow> snd (on_exception (snd (snd (cycle_try st env))) env))"
  by (simp add: listen_cycle_def case_prod_beta split: sum.splits exn.splits)

lemma listen_cycle_state: "snd (snd (listen_cycle st env)) = snd (snd (cycle_try st env))"
  by (simp add: listen_cycle_def case_prod_beta split: sum.splits exn.splits)

lemma cycle_try_running: "running (snd (snd (cycle_try st env))) = running st"
  by (simp add: cycle_try_def case_prod_beta split: sum.splits)

lemma listen_cycle_exit:
  "fst (snd (listen_cycle st env)) \<noteq> Continue \<Longrightarrow> cancels env"
  using cycle_try_cancelled [of st env]
  by (auto simp: listen_cycle_outcome on_exception_outcome cancels_def
        split: sum.splits exn.splits if_splits)

lemma listen_cycle_raise:
  "fst (snd (listen_cycle st env)) = Raise x \<Longrightarrow> x = CancelledError"
  by (auto simp: listen_cycle_outcome on_exception_outcome split: sum.splits exn.splits if_splits)

lemma listen_for_audio_step:
  "running st \<Longrightarrow>
   listen_for_audio st (env # rest) =
     (case fst (snd (listen_cycle st env)) of
        Continue \<Rightarrow>
          (fst (listen_cycle st env) @ fst (listen_for_audio (snd (snd (listen_cycle st env))) rest),
           snd (listen_for_audio (snd (snd (listen_cycle st env))) rest))
      | Break \<Rightarrow> (fst (listen_cycle st env), Returned, snd (snd (listen_cycle st env)))
      | Raise x \<Rightarrow> (fst (listen_cycle st env), Raised x, snd (snd (listen_cycle st env))))"
  by (simp add: case_prod_beta split: outcome.splits prod.splits)

lemma listen_for_audio_exit:
  "running st \<Longrightarrow> fst (snd (listen_for_audio st envs)) \<noteq> Pending \<Longrightarrow> list_ex cancels envs"
proof (induction envs arbitrary: st)
  case Nil
  then show ?case by simp
next
  case (Cons env rest)
  show ?case
  proof (cases "fst (snd (listen_cycle st env)) = Continue")
    case True
    have "running (snd (snd (listen_cycle st env)))"
      using Cons.prems(1) by (simp add: listen_cycle_state cycle_try_running)
    moreover have "fst (snd (listen_for_audio (snd (snd (listen_cycle st env))) rest)) \<noteq> Pending"
      using Cons.prems True by (simp add: listen_for_audio_step del: listen_for_audio.simps)
    ultimately have "list_ex cancels rest" by (rule Cons.IH)
    then show ?thesis by simp
  next
    case False
    then have "cancels env" by (rule listen_cycle_exit)
    then show ?thesis by simp
  qed
qed

lemma listen_for_audio_raised:
  "fst (snd (listen_for_audio st envs)) = Raised x \<Longrightarrow> x = CancelledError"
proof (induction envs arbitrary: st)
  case Nil
  then show ?case by (simp split: if_splits)
next
  case (Cons env rest)
  show ?case
  proof (cases "running st")
    case False
    with Cons.prems show ?thesis by simp
  next
    case True
    with Cons.prems show ?thesis
      by (auto simp: listen_for_audio_step simp del: listen_for_audio.simps
            split: outcome.splits dest: Cons.IH listen_cycle_raise)
  qed
qed

section \<open>Input overflow during capture\<close>

lemma cycle_body_completes:
  assumes "\<forall>i < n_reads. is_overflow (read_res env i) \<or> (\<exists>d. read_res env i = Inr d \<and> d \<noteq> [])"
    and "handle_res env = Inr ()" and "idle_wake env = Woke"
  shows "snd (cycle_body s env) = Inr ()"
proof -
  obtain evs r where rl: "record_loop s (read_res env) [0..<n_reads] [] False = (evs, r)"
    by (cases "record_loop s (read_res env) [0..<n_reads] [] False")
  from assms(1) have "\<forall>i \<in> set [0..<n_reads]. is_overflow (read_res env i) \<or> (\<exists>d. read_res env i = Inr d \<and> d \<noteq> [])"
    by simp
  from record_loop_completes [OF this, of s "[]" False] rl
  obtain frames hv where r: "r = Inr (frames, hv)" by simp
  obtain logs v where rs: "recognize_speech (asr_res env) (concat frames) = (Asr (concat frames) # logs, Inr v)"
    using recognize_speech_shape by blast
  from rl r rs assms(2,3) show ?thesis
    by (simp add: cycle_body_def idle_def)
qed

text \<open>
  Claim C9. A read that raises an IOError whose first argument is -9981 is caught inside
  the capture loop: a warning is logged, no frame is appended, the voice flag is
  unchanged and the loop goes on with the remaining reads. A window in which every read
  either overflows or delivers a non-empty chunk is captured to its end, and holds the
  delivered chunks in order. With such reads the cycle ends normally and the loop
  continues.
\<close>

theorem overflow_is_dropped_frame:
  "(is_overflow (rd i) \<longrightarrow>
      record_loop s rd (i # rest) frames has_voice =
        (case record_loop s rd rest frames has_voice of
           (evs, r) \<Rightarrow> (Read s # Log Warning ''Audio input overflow, skipping frame'' # evs, r)))
   \<and> ((\<forall>i \<in> set ks. is_overflow (rd i) \<or> (\<exists>d. rd i = Inr d \<and> d \<noteq> [])) \<longrightarrow>
      snd (record_loop s rd ks frames has_voice)
        = Inr (frames @ delivered rd ks, has_voice \<or> byte_above_threshold (delivered rd ks)))
   \<and> (open_res env = Inr s
        \<and> (\<forall>i < n_reads. is_overflow (read_res env i) \<or> (\<exists>d. read_res env i = Inr d \<and> d \<noteq> []))
        \<and> handle_res env = Inr () \<and> idle_wake env = Woke \<longrightarrow>
      fst (snd (listen_cycle st env)) = Continue)"
proof -
  have "fst (snd (listen_cycle st env)) = Continue"
    if "open_res env = Inr s"
      and "\<forall>i < n_reads. is_overflow (read_res env i) \<or> (\<exists>d. read_res env i = Inr d \<and> d \<noteq> [])"
      and "handle_res env = Inr ()" and "idle_wake env = Woke"
    using that cycle_body_completes [of env s]
    by (simp add: listen_cycle_outcome cycle_try_def case_prod_beta)
  then show ?thesis
    using record_loop_overflow [of rd i s rest frames has_voice]
      record_loop_completes [of ks rd s frames has_voice]
    by (simp del: record_loop.simps)
qed

theorem overflow_is_dropped_frame_witness:
  "record_loop 7
     (\<lambda>i. if i = 1 then Inl (IOError [PNum (NInt (- 9981)), PStr ''Input overflowed''])
           else Inr [3, 200])
     [1, 2] [[3, 200]] True
   = (case record_loop 7
        (\<lambda>i. if i = 1 then Inl (IOError [PNum (NInt (- 9981)), PStr ''Input overflowed''])
           else Inr [3, 200])
        [2] [[3, 200]] True of
        (evs, r) \<Rightarrow> (Read 7 # Log Warning ''Audio input overflow, skipping frame'' # evs, r))
   \<and> snd (record_loop 7
        (\<lambda>i. if i = 1 then Inl (IOError [PNum (NInt (- 9981)), PStr ''Input overflowed''])
           else Inr [3, 200])
        [0, 1, 2] [] False)
     = Inr ([[3, 200], [3, 200]], True)
   \<and> fst (snd (listen_cycle \<lparr>running = True, stream = None, recording_task = True\<rparr>
        \<lparr>open_res = Inr 7,
         read_res = (\<lambda>i. if i = 1 then Inl (IOError [PNum (NInt (- 9981)), PStr ''Input overflowed''])
                          else Inr [3, 200]),
         asr_res = Inr (PDict [(''err_no'', PNum (NInt 0)), (''result'', PList [PStr ''hello''])]),
         handle_res = Inr (), idle_wake = Woke, stop_res = Inr (), close_res = Inr (),
         backoff_wake = Woke\<rparr>)) = Continue"
  using overflow_is_dropped_frame
          [where rd = "\<lambda>i. if i = 1 then Inl (IOError [PNum (NInt (- 9981)), PStr ''Input overflowed''])
                            else Inr [3, 200]"
             and i = 1 and rest = "[2]" and frames = "[[3, 200]]" and has_voice = True and s = 7
             and ks = "[]"]
        overflow_is_dropped_frame
          [where rd = "\<lambda>i. if i = 1 then Inl (IOError [PNum (NInt (- 9981)), PStr ''Input overflowed''])
                            else Inr [3, 200]"
             and i = 0 and ks = "[0, 1, 2]" and frames = "[]" and has_voice = False and s = 7
             and st = "\<lparr>running = True, stream = None, recording_task = True\<rparr>"
             and env = "\<lparr>open_res = Inr 7,
         read_res = (\<lambda>i. if i = 1 then Inl (IOError [PNum (NInt (- 9981)), PStr ''Input overflowed''])
                          else Inr [3, 200]),
         asr_res = Inr (PDict [(''err_no'', PNum (NInt 0)), (''result'', PList [PStr ''hello''])]),
         handle_res = Inr (), idle_wake = Woke, stop_res = Inr (), close_res = Inr (),
         backoff_wake = Woke\<rparr>"]
  by (simp add: is_overflow_def delivered_def byte_above_threshold_def del: record_loop.simps)

section \<open>Voice activity detection\<close>

lemma pcm16_samples_replicate:
  "pcm16_samples (replicate (2 * n) b) = replicate n (pcm16 b b)"
  by (induction n) simp_all

lemma spec_peak_replicate:
  "0 < m \<Longrightarrow> 0 < n \<Longrightarrow>
   spec_peak (replicate m (replicate (2 * n) b)) = max 0 \<bar>pcm16 b b\<bar>"
  by (simp add: spec_peak_def pcm16_samples_replicate)

lemma delivered_constant:
  "delivered (\<lambda>i. Inr d) ks = replicate (length ks) d"
  by (induction ks) (simp_all add: delivered_def)

lemma byte_above_threshold_replicate:
  "0 < m \<Longrightarrow> byte_above_threshold (replicate m d) = list_ex (\<lambda>b. 100 < unat b) d"
  by (auto simp: byte_above_threshold_def list_ex_iff)


lemma constant_reads_cycle:
  assumes "open_res env = Inr s" and "read_res env = (\<lambda>i. Inr d)" and "d \<noteq> []"
  shows "filter is_asr (fst (listen_cycle st env))
           = (if list_ex (\<lambda>b. 100 < unat b) d then [Asr (concat (replicate n_reads d))] else [])"
proof -
  have ok: "\<forall>i < n_reads. \<exists>c. read_res env i = Inr c \<and> c \<noteq> []"
    using assms by simp
  have dl: "delivered (read_res env) [0..<n_reads] = replicate n_reads d"
    using assms by (simp add: delivered_constant)
  have above: "byte_above_threshold (delivered (read_res env) [0..<n_reads])
                = list_ex (\<lambda>b. 100 < unat b) d"
    unfolding dl by (simp add: byte_above_threshold_replicate n_reads_46)
  show ?thesis
  proof (cases "list_ex (\<lambda>b. 100 < unat b) d")
    case True
    with above loud_byte_one_recognition [OF assms(1) ok, of st] dl show ?thesis by simp
  next
    case False
    with above quiet_bytes_no_recognition [OF assms(1) ok, of st] show ?thesis by simp
  qed
qed

lemma constant_reads_publish:
  assumes "open_res env = Inr s" and "read_res env = (\<lambda>i. Inr d)" and "d \<noteq> []"
    and "list_ex (\<lambda>b. 100 < unat b) d"
    and "snd (recognize_speech (asr_res env) (concat (replicate n_reads d))) = Inr heard"
    and "py_truthy heard"
  shows "filter is_publish (fst (listen_cycle st env))
           = [HandleMessage ''voice_user'' ''voice_chat'' heard]"
proof -
  obtain evs r where rl: "record_loop s (read_res env) [0..<n_reads] [] False = (evs, r)"
    by (cases "record_loop s (read_res env) [0..<n_reads] [] False")
  have ok: "\<forall>i \<in> set [0..<n_reads]. is_overflow (read_res env i) \<or> (\<exists>c. read_res env i = Inr c \<and> c \<noteq> [])"
    using assms by simp
  have dl: "delivered (read_res env) [0..<n_reads] = replicate n_reads d"
    using assms by (simp add: delivered_constant)
  have "byte_above_threshold (replicate n_reads d)"
    using assms(4) by (simp add: byte_above_threshold_replicate n_reads_46)
  with record_loop_completes [OF ok, of s "[]" False] rl dl
  have "record_loop s (read_res env) [0..<n_reads] [] False = (evs, Inr (replicate n_reads d, True))"
    by simp
  from cycle_body_publishes [OF this assms(5,6)] show ?thesis
    by (simp add: listen_cycle_events [OF assms(1)])
qed

text \<open>
  Claim C1, evaluated. A window of 46 chunks of 2048 bytes, every byte 255: each sample
  is -1, so the largest sample magnitude is 1, far below the threshold. The source takes
  \<^verbatim>\<open>max(data)\<close> over the bytes of the chunk, finds 255 and sends the whole window to the
  recognition provider.
\<close>

theorem quiet_window_is_recognized:
  "spec_peak (replicate 46 (replicate 2048 255)) = 1
   \<and> filter is_asr
       (fst (listen_cycle \<lparr>running = True, stream = None, recording_task = True\<rparr>
          \<lparr>open_res = Inr 7, read_res = (\<lambda>i. Inr (replicate 2048 255)),
           asr_res = Inr (PDict [(''err_no'', PNum (NInt 0)), (''result'', PList [PStr ''hello''])]),
           handle_res = Inr (), idle_wake = Woke, stop_res = Inr (), close_res = Inr (),
           backoff_wake = Woke\<rparr>))
     = [Asr (concat (replicate 46 (replicate 2048 255)))]
   \<and> filter is_publish
       (fst (listen_cycle \<lparr>running = True, stream = None, recording_task = True\<rparr>
          \<lparr>open_res = Inr 7, read_res = (\<lambda>i. Inr (replicate 2048 255)),
           asr_res = Inr (PDict [(''err_no'', PNum (NInt 0)), (''result'', PList [PStr ''hello''])]),
           handle_res = Inr (), idle_wake = Woke, stop_res = Inr (), close_res = Inr (),
           backoff_wake = Woke\<rparr>))
     = [HandleMessage ''voice_user'' ''voice_chat'' (PStr ''hello'')]"
proof -
  have "spec_peak (replicate 46 (replicate (2 * 1024) 255)) = 1"
    by (simp only: spec_peak_replicate) (simp add: pcm16_def)
  moreover have loud: "list_ex (\<lambda>b. 100 < unat b) (replicate 2048 (255 :: byte))"
    by (simp add: list_ex_iff)
  moreover have "snd (recognize_speech
                   (Inr (PDict [(''err_no'', PNum (NInt 0)), (''result'', PList [PStr ''hello''])]))
                   (concat (replicate n_reads (replicate 2048 255)))) = Inr (PStr ''hello'')"
    by (simp add: recognize_speech_def recognize_try_def)
  ultimately show ?thesis
    by (simp add: constant_reads_cycle [where s = 7 and d = "replicate 2048 255"]
          constant_reads_publish [where s = 7 and d = "replicate 2048 255" and heard = "PStr ''hello''"]
          n_reads_46)
qed

text \<open>
  Claim C2, evaluated. A window of 46 chunks of 2048 bytes, every byte 1: each sample is
  257, above the threshold. The largest byte is 1, so the source discards the window and
  makes no recognition call.
\<close>

theorem loud_window_is_discarded:
  "spec_peak (replicate 46 (replicate 2048 1)) = 257
   \<and> filter is_asr
       (fst (listen_cycle \<lparr>running = True, stream = None, recording_task = True\<rparr>
          \<lparr>open_res = Inr 7, read_res = (\<lambda>i. Inr (replicate 2048 1)),
           asr_res = Inr (PDict [(''err_no'', PNum (NInt 0)), (''result'', PList [PStr ''hello''])]),
           handle_res = Inr (), idle_wake = Woke, stop_res = Inr (), close_res = Inr (),
           backoff_wake = Woke\<rparr>))
     = []"
proof -
  have "spec_peak (replicate 46 (replicate (2 * 1024) 1)) = 257"
    by (simp only: spec_peak_replicate) (simp add: pcm16_def)
  moreover have "\<not> list_ex (\<lambda>b. 100 < unat b) (replicate 2048 (1 :: byte))"
    by (simp add: list_ex_iff)
  ultimately show ?thesis
    by (simp add: constant_reads_cycle [where s = 7 and d = "replicate 2048 1"])
qed

section \<open>Delays and termination of the loop\<close>

text \<open>
  When no capture stream has ever been opened and \<^verbatim>\<open>self.p.open\<close> raises, the handler
  logs and the cycle is over: \<^verbatim>\<open>await asyncio.sleep(1)\<close> stands inside
  \<^verbatim>\<open>if self.stream is not None:\<close>.
\<close>

lemma open_failure_without_stream:
  "stream st = None \<Longrightarrow> open_res env = Inl e \<Longrightarrow>
   listen_cycle st env = ([OpenInput, Log Error_level ''Audio listening error''], Continue, st)"
  by (simp add: listen_cycle_def cycle_try_def on_exception_def)

text \<open>
  In every other cycle after which the loop continues (the stream opens, or an earlier
  stream is still stored) the trace of the cycle holds a sleep.
\<close>

lemma cycle_body_sleeps:
  assumes "snd (cycle_body s env) = Inr u"
  shows "Sleep 0.5 \<in> set (fst (cycle_body s env))"
proof -
  obtain evs r where rl: "record_loop s (read_res env) [0..<n_reads] [] False = (evs, r)"
    by (cases "record_loop s (read_res env) [0..<n_reads] [] False")
  show ?thesis
  proof (cases r)
    case (Inl x)
    with rl assms show ?thesis by (simp add: cycle_body_def)
  next
    case (Inr fh)
    obtain frames hv where fh: "fh = (frames, hv)" by (cases fh)
    obtain logs v where r: "recognize_speech (asr_res env) (concat frames) = (Asr (concat frames) # logs, Inr v)"
      using recognize_speech_shape by blast
    from rl Inr fh r assms show ?thesis
      by (auto simp: cycle_body_def idle_def split: if_splits sum.splits wake.splits)
  qed
qed

lemma listen_cycle_sleeps:
  assumes "fst (snd (listen_cycle st env)) = Continue"
    and "stream st \<noteq> None \<or> (\<exists>s. open_res env = Inr s)"
  shows "list_ex is_sleep (fst (listen_cycle st env))"
proof (cases "open_res env")
  case (Inl e)
  with assms(2) obtain s where "stream st = Some s" by auto
  with Inl show ?thesis
    by (simp add: listen_cycle_def cycle_try_def on_exception_def Let_def
          split: sum.splits wake.splits)
next
  case (Inr s)
  obtain evs r where cb: "cycle_body s env = (evs, r)" by (cases "cycle_body s env")
  show ?thesis
  proof (cases r)
    case (Inr u)
    with cb cycle_body_sleeps [of s env u] have "Sleep 0.5 \<in> set evs" by simp
    moreover have "is_sleep (Sleep 0.5)" by simp
    ultimately have "list_ex is_sleep evs" unfolding list_ex_iff by blast
    with cb \<open>r = Inr u\<close> \<open>open_res env = Inr s\<close> show ?thesis
      by (simp add: listen_cycle_def cycle_try_def)
  next
    case (Inl x)
    with cb \<open>open_res env = Inr s\<close> assms(1) show ?thesis
      by (cases x)
         (auto simp: listen_cycle_def cycle_try_def on_exception_def Let_def
            split: sum.splits wake.splits)
  qed
qed

text \<open>
  Claim C7, evaluated. The device cannot be opened in the first two cycles: the loop
  opens, logs, opens and logs again, with no sleep in between, and is still running.
\<close>

theorem no_backoff_when_first_open_fails:
  "listen_for_audio \<lparr>running = True, stream = None, recording_task = True\<rparr>
     [\<lparr>open_res = Inl (IOError [PNum (NInt (- 9996)), PStr ''Invalid input device'']),
       read_res = (\<lambda>i. Inr [0, 0]), asr_res = Inr PNone,
       handle_res = Inr (), idle_wake = Woke, stop_res = Inr (), close_res = Inr (),
       backoff_wake = Woke\<rparr>,
      \<lparr>open_res = Inl (IOError [PNum (NInt (- 9996)), PStr ''Invalid input device'']),
       read_res = (\<lambda>i. Inr [0, 0]), asr_res = Inr PNone,
       handle_res = Inr (), idle_wake = Woke, stop_res = Inr (), close_res = Inr (),
       backoff_wake = Woke\<rparr>]
   = ([OpenInput, Log Error_level ''Audio listening error'',
       OpenInput, Log Error_level ''Audio listening error''],
      Pending,
      \<lparr>running = True, stream = None, recording_task = True\<rparr>)"
  by (simp add: listen_cycle_def cycle_try_def on_exception_def)

lemma first_read_fails:
  "rd 0 = Inl (IOError (a # args)) \<Longrightarrow> \<not> py_eq_int a (- 9981) \<Longrightarrow>
   record_loop s rd [0..<n_reads] [] False = ([Read s], Inl (Error (IOError (a # args))))"
  by (simp add: n_reads_46 upt_conv_Cons)

text \<open>
  Claim C8 as stated fails: the stream is open, a read raises, and \<^verbatim>\<open>stop_stream\<close> raises
  in the handler. The bare \<^verbatim>\<open>except: pass\<close> swallows that, \<^verbatim>\<open>close\<close> is never called, and
  the loop continues with the stream still open.
\<close>

theorem stream_left_open_when_stop_stream_raises:
  "listen_cycle \<lparr>running = True, stream = None, recording_task = True\<rparr>
     \<lparr>open_res = Inr 7,
      read_res = (\<lambda>i. Inl (IOError [PNum (NInt (- 9999)), PStr ''Unanticipated host error''])),
      asr_res = Inr PNone, handle_res = Inr (), idle_wake = Woke,
      stop_res = Inl (IOError [PNum (NInt (- 9999)), PStr ''Unanticipated host error'']),
      close_res = Inr (), backoff_wake = Woke\<rparr>
   = ([OpenInput, Log Debug ''Listening for audio input...'', Read 7,
       Log Error_level ''Audio listening error'', StopStream 7, Sleep 1],
      Continue,
      \<lparr>running = True, stream = Some 7, recording_task = True\<rparr>)"
  by (simp add: listen_cycle_def cycle_try_def cycle_body_def on_exception_def first_read_fails)


lemma on_exception_events:
  "fst (on_exception st env) =
     Log Error_level ''Audio listening error''
       # (case stream st of
            None \<Rightarrow> []
          | Some s \<Rightarrow>
              StopStream s # (case stop_res env of Inl e \<Rightarrow> [] | Inr u \<Rightarrow> [Close s]) @ [Sleep 1])"
  by (simp add: on_exception_def Let_def split: option.splits sum.splits wake.splits)

lemma listen_cycle_error_events:
  "fst (snd (cycle_try st env)) = Inl (Error e) \<Longrightarrow>
   fst (listen_cycle st env)
     = fst (cycle_try st env) @ fst (on_exception (snd (snd (cycle_try st env))) env)"
  by (simp add: listen_cycle_def case_prod_beta split: sum.splits exn.splits)

text \<open>
  Claim C8, amended. The loop ends only on what \<^verbatim>\<open>stop\<close> issues: the cleared
  \<^verbatim>\<open>_running\<close> flag, seen at the head of the loop, or the task's cancellation, delivered
  at an \<^verbatim>\<open>await\<close>; nothing but \<^verbatim>\<open>CancelledError\<close> ever leaves it. Any other exception
  raised during a cycle is logged; if a stream is stored, \<^verbatim>\<open>stop_stream\<close> is called on
  it, and \<^verbatim>\<open>close\<close> after it unless \<^verbatim>\<open>stop_stream\<close> raised; and, unless a cancellation
  arrives, the loop continues with the next cycle.
\<close>

theorem listen_loop_exits_only_on_cancel:
  "(running st \<and> fst (snd (listen_for_audio st envs)) \<noteq> Pending \<longrightarrow> list_ex cancels envs)
   \<and> (fst (snd (listen_for_audio st envs)) = Raised x \<longrightarrow> x = CancelledError)
   \<and> \<not> running (snd (stop st a b))
   \<and> listen_for_audio (snd (stop st a b)) envs = ([], Returned, snd (stop st a b))
   \<and> (fst (snd (cycle_try st env)) = Inl (Error e) \<longrightarrow>
        Log Error_level ''Audio listening error'' \<in> set (fst (listen_cycle st env))
        \<and> (\<forall>s. stream (snd (snd (listen_cycle st env))) = Some s \<longrightarrow>
              StopStream s \<in> set (fst (listen_cycle st env))
              \<and> (stop_res env = Inr () \<longrightarrow> Close s \<in> set (fst (listen_cycle st env))))
        \<and> (\<not> cancels env \<longrightarrow> fst (snd (listen_cycle st env)) = Continue))
   \<and> (running st \<and> fst (snd (listen_cycle st env)) = Continue \<longrightarrow>
        listen_for_audio st (env # rest) =
          (fst (listen_cycle st env)
             @ fst (listen_for_audio (snd (snd (listen_cycle st env))) rest),
           snd (listen_for_audio (snd (snd (listen_cycle st env))) rest)))"
proof -
  have stopped: "listen_for_audio (snd (stop st a b)) envs = ([], Returned, snd (stop st a b))"
    by (cases envs) (simp_all add: stop_def)
  have handler: "Log Error_level ''Audio listening error'' \<in> set (fst (listen_cycle st env))
        \<and> (\<forall>s. stream (snd (snd (listen_cycle st env))) = Some s \<longrightarrow>
              StopStream s \<in> set (fst (listen_cycle st env))
              \<and> (stop_res env = Inr () \<longrightarrow> Close s \<in> set (fst (listen_cycle st env))))
        \<and> (\<not> cancels env \<longrightarrow> fst (snd (listen_cycle st env)) = Continue)"
    if "fst (snd (cycle_try st env)) = Inl (Error e)"
    using that listen_cycle_exit [of st env]
    by (auto simp: listen_cycle_error_events on_exception_events listen_cycle_state)
  show ?thesis
    using listen_for_audio_exit [of st envs] listen_for_audio_raised [of st envs x]
      stopped handler listen_for_audio_step [of st env rest]
    by (simp add: stop_def del: listen_for_audio.simps)
qed

theorem listen_loop_exits_only_on_cancel_witness:
  "list_ex cancels
     [\<lparr>open_res = Inr 7,
       read_res = (\<lambda>i. Inl (IOError [PNum (NInt (- 9999)), PStr ''Unanticipated host error''])),
       asr_res = Inr PNone, handle_res = Inr (), idle_wake = Woke,
       stop_res = Inr (), close_res = Inr (), backoff_wake = Cancelled\<rparr>]
   \<and> Log Error_level ''Audio listening error''
       \<in> set (fst (listen_cycle \<lparr>running = True, stream = None, recording_task = True\<rparr>
            \<lparr>open_res = Inr 7,
             read_res = (\<lambda>i. Inl (IOError [PNum (NInt (- 9999)), PStr ''Unanticipated host error''])),
             asr_res = Inr PNone, handle_res = Inr (), idle_wake = Woke,
             stop_res = Inr (), close_res = Inr (), backoff_wake = Woke\<rparr>))
   \<and> listen_for_audio \<lparr>running = True, stream = None, recording_task = True\<rparr>
       [\<lparr>open_res = Inr 7,
         read_res = (\<lambda>i. Inl (IOError [PNum (NInt (- 9999)), PStr ''Unanticipated host error''])),
         asr_res = Inr PNone, handle_res = Inr (), idle_wake = Woke,
         stop_res = Inr (), close_res = Inr (), backoff_wake = Woke\<rparr>]
     = ([OpenInput, Log Debug ''Listening for audio input...'', Read 7,
         Log Error_level ''Audio listening error'', StopStream 7, Close 7, Sleep 1],
        Pending,
        \<lparr>running = True, stream = Some 7, recording_task = True\<rparr>)"
  using listen_loop_exits_only_on_cancel
          [where st = "\<lparr>running = True, stream = None, recording_task = True\<rparr>"
             and envs = "[\<lparr>open_res = Inr 7,
               read_res = (\<lambda>i. Inl (IOError [PNum (NInt (- 9999)), PStr ''Unanticipated host error''])),
               asr_res = Inr PNone, handle_res = Inr (), idle_wake = Woke,
               stop_res = Inr (), close_res = Inr (), backoff_wake = Cancelled\<rparr>]"
             and x = CancelledError
             and env = "\<lparr>open_res = Inr 7,
               read_res = (\<lambda>i. Inl (IOError [PNum (NInt (- 9999)), PStr ''Unanticipated host error''])),
               asr_res = Inr PNone, handle_res = Inr (), idle_wake = Woke,
               stop_res = Inr (), close_res = Inr (), backoff_wake = Woke\<rparr>"
             and e = "IOError [PNum (NInt (- 9999)), PStr ''Unanticipated host error'']"
             and rest = "[]"]
  by (simp add: listen_cycle_def cycle_try_def cycle_body_def on_exception_def first_read_fails
        cancels_def)

end
